theory Spec2Isabelle
  imports Complex_Main "HOL-Library.Word" "HOL-Library.Monad_Syntax"
begin

section \<open>JavaScript values\<close>

text \<open>
  A JavaScript string is a sequence of UTF-16 code units; \<open>.length\<close> (which the
  handlers and the zod length checks read) counts code units. String literals of the
  source that are plain ASCII are written with \<open>str\<close>.
\<close>

type_synonym code_unit = "16 word"
type_synonym js_string = "code_unit list"

definition str :: "string \<Rightarrow> js_string" where
  "str s = map of_char s"

text \<open>
  The values that reach the server: what \<open>JSON.parse\<close> produces, plus \<open>undefined\<close>.
  A number is kept as the exact value its literal denotes (the rounding to a double is
  not modelled; it is the identity on the integers used here). An object is the list
  of its own properties in insertion order, with distinct keys.
\<close>

datatype js_value =
    JUndefined
  | JNull
  | JBool bool
  | JNum rat
  | JStr js_string
  | JArr "js_value list"
  | JObj "(js_string \<times> js_value) list"

text \<open>\<open>obj[k] = v\<close>: overwrite in place, or append a new property.\<close>

fun set_prop :: "('k \<times> 'v) list \<Rightarrow> 'k \<Rightarrow> 'v \<Rightarrow> ('k \<times> 'v) list" where
  "set_prop [] k v = [(k, v)]"
| "set_prop ((k', v') # ps) k v =
     (if k' = k then (k, v) # ps else (k', v') # set_prop ps k v)"

text \<open>
  \<open>v.k\<close> for the property names the source reads (\<open>status\<close>, \<open>statusText\<close>,
  \<open>body\<close>, \<open>id\<close>, \<open>channel_id\<close>, \<open>timestamp\<close>), none of which is defined on a
  built-in prototype: a \<open>TypeError\<close> (here \<open>None\<close>) on \<open>null\<close> and \<open>undefined\<close>,
  the own property of an object, \<open>undefined\<close> everywhere else.
\<close>

definition own_prop :: "(js_string \<times> js_value) list \<Rightarrow> js_string \<Rightarrow> js_value" where
  "own_prop ps k = (case map_of ps k of None \<Rightarrow> JUndefined | Some v \<Rightarrow> v)"

fun get_prop :: "js_value \<Rightarrow> js_string \<Rightarrow> js_value option" where
  "get_prop JUndefined k = None"
| "get_prop JNull k = None"
| "get_prop (JObj ps) k = Some (own_prop ps k)"
| "get_prop v k = Some JUndefined"

text \<open>\<open>v?.k\<close>\<close>

fun opt_chain :: "js_value \<Rightarrow> js_string \<Rightarrow> js_value" where
  "opt_chain JUndefined k = JUndefined"
| "opt_chain JNull k = JUndefined"
| "opt_chain (JObj ps) k = own_prop ps k"
| "opt_chain v k = JUndefined"

text \<open>Truthiness, as \<open>if (v)\<close>, \<open>!v\<close> and \<open>v ? a : b\<close> test it.\<close>

fun truthy :: "js_value \<Rightarrow> bool" where
  "truthy JUndefined = False"
| "truthy JNull = False"
| "truthy (JBool b) = b"
| "truthy (JNum r) = (r \<noteq> 0)"
| "truthy (JStr s) = (s \<noteq> [])"
| "truthy (JArr xs) = True"
| "truthy (JObj ps) = True"

subsection \<open>Numbers and strings as text\<close>

fun dec :: "nat \<Rightarrow> js_string" where
  "dec n = (if n < 10 then [of_nat (48 + n)] else dec (n div 10) @ [of_nat (48 + n mod 10)])"

declare dec.simps [simp del]

text \<open>
  \<open>Number::toString\<close>. An integer below \<open>10^21\<close> prints as its decimal digits; every
  other number prints as the shortest decimal that reads back as the same double, which
  is left to the engine (the parameter \<open>other\<close>).
\<close>

definition Number_toString :: "(rat \<Rightarrow> js_string) \<Rightarrow> rat \<Rightarrow> js_string" where
  "Number_toString other r =
     (if r = of_int \<lfloor>r\<rfloor> \<and> \<bar>r\<bar> < 10 ^ 21
      then (if r < 0 then [0x2D] else []) @ dec (nat \<bar>\<lfloor>r\<rfloor>\<bar>)
      else other r)"

fun join :: "js_string \<Rightarrow> js_string list \<Rightarrow> js_string" where
  "join sep [] = []"
| "join sep [x] = x"
| "join sep (x # y # ys) = x @ sep @ join sep (y # ys)"

text \<open>\<open>String(v)\<close> and \<open>`${v}`\<close>.\<close>

fun ToString :: "(rat \<Rightarrow> js_string) \<Rightarrow> js_value \<Rightarrow> js_string" where
  "ToString other JUndefined = str ''undefined''"
| "ToString other JNull = str ''null''"
| "ToString other (JBool b) = (if b then str ''true'' else str ''false'')"
| "ToString other (JNum r) = Number_toString other r"
| "ToString other (JStr s) = s"
| "ToString other (JArr xs) =
     join [0x2C] (map (\<lambda>x. if x = JUndefined \<or> x = JNull then [] else ToString other x) xs)"
| "ToString other (JObj ps) = str ''[object Object]''"

section \<open>JSON\<close>

subsection \<open>JSON.stringify\<close>

definition is_high_surrogate :: "code_unit \<Rightarrow> bool" where
  "is_high_surrogate c = (0xD800 \<le> c \<and> c \<le> 0xDBFF)"

definition is_low_surrogate :: "code_unit \<Rightarrow> bool" where
  "is_low_surrogate c = (0xDC00 \<le> c \<and> c \<le> 0xDFFF)"

definition hex_digit :: "nat \<Rightarrow> code_unit" where
  "hex_digit d = (if d < 10 then of_nat (48 + d) else of_nat (87 + d))"

text \<open>\<open>\uXXXX\<close> with lower-case hexadecimal digits.\<close>

definition unicode_escape :: "code_unit \<Rightarrow> js_string" where
  "unicode_escape c =
     [0x5C, 0x75,
      hex_digit (unat c div 4096 mod 16), hex_digit (unat c div 256 mod 16),
      hex_digit (unat c div 16 mod 16), hex_digit (unat c mod 16)]"

text \<open>
  The body of \<open>QuoteJSONString\<close>: the two-character escapes, \<open>\uXXXX\<close> for the other
  control characters and for a surrogate that is not part of a pair, everything else
  as it is.
\<close>

fun quote_chars :: "js_string \<Rightarrow> js_string" where
  "quote_chars [] = []"
| "quote_chars (c # cs) =
     (if c = 0x08 then [0x5C, 0x62] @ quote_chars cs
      else if c = 0x09 then [0x5C, 0x74] @ quote_chars cs
      else if c = 0x0A then [0x5C, 0x6E] @ quote_chars cs
      else if c = 0x0C then [0x5C, 0x66] @ quote_chars cs
      else if c = 0x0D then [0x5C, 0x72] @ quote_chars cs
      else if c = 0x22 then [0x5C, 0x22] @ quote_chars cs
      else if c = 0x5C then [0x5C, 0x5C] @ quote_chars cs
      else if c < 0x20 then unicode_escape c @ quote_chars cs
      else if is_high_surrogate c then
        (case cs of
           [] \<Rightarrow> unicode_escape c
         | d # ds \<Rightarrow>
             if is_low_surrogate d then c # d # quote_chars ds
             else unicode_escape c @ quote_chars cs)
      else if is_low_surrogate c then unicode_escape c @ quote_chars cs
      else c # quote_chars cs)"

definition QuoteJSONString :: "js_string \<Rightarrow> js_string" where
  "QuoteJSONString s = [0x22] @ quote_chars s @ [0x22]"

text \<open>
  \<open>JSON.stringify(v)\<close>; \<open>None\<close> is the result \<open>undefined\<close>. A property whose value
  is \<open>undefined\<close> is left out, an \<open>undefined\<close> array element is written \<open>null\<close>.
\<close>

fun JSON_stringify :: "(rat \<Rightarrow> js_string) \<Rightarrow> js_value \<Rightarrow> js_string option" where
  "JSON_stringify other JUndefined = None"
| "JSON_stringify other JNull = Some (str ''null'')"
| "JSON_stringify other (JBool b) = Some (if b then str ''true'' else str ''false'')"
| "JSON_stringify other (JNum r) = Some (Number_toString other r)"
| "JSON_stringify other (JStr s) = Some (QuoteJSONString s)"
| "JSON_stringify other (JArr xs) =
     Some ([0x5B] @
       join [0x2C] (map (\<lambda>x. case JSON_stringify other x of
                                  None \<Rightarrow> str ''null'' | Some t \<Rightarrow> t) xs)
       @ [0x5D])"
| "JSON_stringify other (JObj ps) =
     Some ([0x7B] @
       join [0x2C] (concat (map (\<lambda>p. case JSON_stringify other (snd p) of
                                  None \<Rightarrow> []
                                | Some t \<Rightarrow> [QuoteJSONString (fst p) @ [0x3A] @ t]) ps))
       @ [0x7D])"

subsection \<open>JSON.parse\<close>

datatype token =
    TLBrace | TRBrace | TLBracket | TRBracket | TColon | TComma
  | TString js_string | TNumber rat | TTrue | TFalse | TNull

definition is_ws :: "code_unit \<Rightarrow> bool" where
  "is_ws c = (c = 0x20 \<or> c = 0x09 \<or> c = 0x0A \<or> c = 0x0D)"

definition is_digit :: "code_unit \<Rightarrow> bool" where
  "is_digit c = (0x30 \<le> c \<and> c \<le> 0x39)"

definition hex_val :: "code_unit \<Rightarrow> nat option" where
  "hex_val c =
     (if 0x30 \<le> c \<and> c \<le> 0x39 then Some (unat c - 48)
      else if 0x61 \<le> c \<and> c \<le> 0x66 then Some (unat c - 87)
      else if 0x41 \<le> c \<and> c \<le> 0x46 then Some (unat c - 55)
      else None)"

definition hex4 :: "code_unit \<Rightarrow> code_unit \<Rightarrow> code_unit \<Rightarrow> code_unit \<Rightarrow> code_unit option" where
  "hex4 a b c d =
     (case (hex_val a, hex_val b, hex_val c, hex_val d) of
        (Some w, Some x, Some y, Some z) \<Rightarrow> Some (of_nat (w * 4096 + x * 256 + y * 16 + z))
      | _ \<Rightarrow> None)"

text \<open>The character after a backslash, other than \<open>u\<close>.\<close>

definition unescape :: "code_unit \<Rightarrow> code_unit option" where
  "unescape e =
     (if e = 0x22 then Some 0x22
      else if e = 0x5C then Some 0x5C
      else if e = 0x2F then Some 0x2F
      else if e = 0x62 then Some 0x08
      else if e = 0x66 then Some 0x0C
      else if e = 0x6E then Some 0x0A
      else if e = 0x72 then Some 0x0D
      else if e = 0x74 then Some 0x09
      else None)"

definition consume :: "'a \<Rightarrow> ('a list \<times> 'b) option \<Rightarrow> ('a list \<times> 'b) option" where
  "consume c r = (case r of None \<Rightarrow> None | Some (s, rest) \<Rightarrow> Some (c # s, rest))"

text \<open>
  A string literal after its opening quote: the decoded string and the input after the
  closing quote. A raw control character, a bad escape or the end of the input fail.
\<close>

fun lex_string :: "js_string \<Rightarrow> (js_string \<times> js_string) option" where
  "lex_string [] = None"
| "lex_string (c # cs) =
     (if c = 0x22 then Some ([], cs)
      else if c = 0x5C then
        (case cs of
           [] \<Rightarrow> None
         | e # es \<Rightarrow>
             if e = 0x75 then
               (case es of
                  h1 # h2 # h3 # h4 # r \<Rightarrow>
                    (case hex4 h1 h2 h3 h4 of
                       None \<Rightarrow> None
                     | Some u \<Rightarrow> consume u (lex_string r))
                | _ \<Rightarrow> None)
             else
               (case unescape e of
                  None \<Rightarrow> None
                | Some u \<Rightarrow> consume u (lex_string es)))
      else if c < 0x20 then None
      else consume c (lex_string cs))"

definition digits_val :: "js_string \<Rightarrow> nat" where
  "digits_val ds = foldl (\<lambda>a d. 10 * a + (unat d - 48)) 0 ds"

text \<open>The integer part: \<open>0\<close>, or digits that do not start with \<open>0\<close>.\<close>

definition lex_int :: "js_string \<Rightarrow> (nat \<times> js_string) option" where
  "lex_int cs =
     (let ds = takeWhile is_digit cs in
      if ds = [] \<or> (hd ds = 0x30 \<and> 1 < length ds) then None
      else Some (digits_val ds, dropWhile is_digit cs))"

text \<open>An optional fraction \<open>.ddd\<close>.\<close>

definition lex_frac :: "js_string \<Rightarrow> (rat \<times> js_string) option" where
  "lex_frac cs =
     (case cs of
        [] \<Rightarrow> Some (0, cs)
      | c # cs' \<Rightarrow>
          if c = 0x2E then
            (let ds = takeWhile is_digit cs' in
             if ds = [] then None
             else Some (of_nat (digits_val ds) / 10 ^ length ds, dropWhile is_digit cs'))
          else Some (0, cs))"

text \<open>An optional exponent \<open>e\<close>, \<open>E\<close> with a sign.\<close>

definition lex_exp :: "js_string \<Rightarrow> (int \<times> js_string) option" where
  "lex_exp cs =
     (case cs of
        [] \<Rightarrow> Some (0, cs)
      | c # cs' \<Rightarrow>
          if c = 0x65 \<or> c = 0x45 then
            (let neg = (cs' \<noteq> [] \<and> hd cs' = 0x2D);
                 cs'' = (if cs' \<noteq> [] \<and> (hd cs' = 0x2D \<or> hd cs' = 0x2B) then tl cs' else cs');
                 ds = takeWhile is_digit cs''
             in if ds = [] then None
                else Some (if neg then - int (digits_val ds) else int (digits_val ds),
                           dropWhile is_digit cs''))
          else Some (0, cs))"

definition lex_number :: "js_string \<Rightarrow> (rat \<times> js_string) option" where
  "lex_number cs =
     (let neg = (cs \<noteq> [] \<and> hd cs = 0x2D);
          cs1 = (if neg then tl cs else cs)
      in case lex_int cs1 of
           None \<Rightarrow> None
         | Some (i, cs2) \<Rightarrow>
             (case lex_frac cs2 of
                None \<Rightarrow> None
              | Some (f, cs3) \<Rightarrow>
                  (case lex_exp cs3 of
                     None \<Rightarrow> None
                   | Some (e, cs4) \<Rightarrow>
                       Some ((if neg then - 1 else 1) * (of_nat i + f)
                               * (if 0 \<le> e then 10 ^ nat e else 1 / 10 ^ nat (- e)),
                             cs4))))"

definition cons_token :: "token \<Rightarrow> token list option \<Rightarrow> token list option" where
  "cons_token t r = map_option ((#) t) r"

lemma consume_shorter:
  "consume c r = Some (s, rest) \<Longrightarrow> \<exists>s'. r = Some (s', rest)"
  by (auto simp: consume_def split: option.splits)

lemma lex_string_shorter: "lex_string cs = Some (s, rest) \<Longrightarrow> length rest < Suc (length cs)"
proof (induction cs arbitrary: s rule: lex_string.induct)
  case 1
  then show ?case by simp
next
  case (2 c cs)
  show ?case
    using "2.prems" "2.IH"
    apply (simp split: if_splits list.splits option.splits)
    apply (fastforce dest!: consume_shorter)+
    done
qed

lemma lex_int_shorter: "lex_int cs = Some (n, rest) \<Longrightarrow> length rest < length cs"
proof -
  assume a: "lex_int cs = Some (n, rest)"
  then have ne: "takeWhile is_digit cs \<noteq> []" and r: "rest = dropWhile is_digit cs"
    by (auto simp: lex_int_def Let_def split: if_splits)
  have "length (takeWhile is_digit cs) + length (dropWhile is_digit cs) = length cs"
    by (metis length_append takeWhile_dropWhile_id)
  with ne r show ?thesis by (cases "takeWhile is_digit cs") auto
qed

lemma lex_frac_shorter: "lex_frac cs = Some (f, rest) \<Longrightarrow> length rest \<le> length cs"
  by (auto simp: lex_frac_def Let_def length_dropWhile_le le_SucI
           split: list.splits if_splits)

lemma lex_exp_shorter: "lex_exp cs = Some (e, rest) \<Longrightarrow> length rest \<le> length cs"
proof (cases cs)
  case Nil
  assume "lex_exp cs = Some (e, rest)"
  with Nil show ?thesis by (simp add: lex_exp_def)
next
  case (Cons c cs')
  assume a: "lex_exp cs = Some (e, rest)"
  have t: "length (dropWhile is_digit (tl cs')) \<le> length cs'"
    by (rule order_trans [OF length_dropWhile_le]) simp
  have u: "length (dropWhile is_digit cs') \<le> length cs'"
    by (rule length_dropWhile_le)
  from a Cons t u show ?thesis
    by (auto simp: lex_exp_def Let_def le_SucI split: if_splits)
qed

lemma lex_number_shorter:
  "lex_number cs = Some (r, rest) \<Longrightarrow> length rest < length cs"
proof -
  assume a: "lex_number cs = Some (r, rest)"
  define cs1 where "cs1 = (if cs \<noteq> [] \<and> hd cs = 0x2D then tl cs else cs)"
  from a obtain i cs2 f cs3 e where
    i: "lex_int cs1 = Some (i, cs2)" and f: "lex_frac cs2 = Some (f, cs3)"
    and e: "lex_exp cs3 = Some (e, rest)"
    by (auto simp: lex_number_def Let_def cs1_def split: option.splits)
  have "length cs1 \<le> length cs" by (simp add: cs1_def)
  with lex_int_shorter [OF i] lex_frac_shorter [OF f] lex_exp_shorter [OF e]
  show ?thesis by linarith
qed

text \<open>The tokens of a JSON text; \<open>None\<close> when a character starts no token.\<close>

function tokenize :: "js_string \<Rightarrow> token list option" where
  "tokenize [] = Some []"
| "tokenize (c # cs) =
     (if is_ws c then tokenize cs
      else if c = 0x7B then cons_token TLBrace (tokenize cs)
      else if c = 0x7D then cons_token TRBrace (tokenize cs)
      else if c = 0x5B then cons_token TLBracket (tokenize cs)
      else if c = 0x5D then cons_token TRBracket (tokenize cs)
      else if c = 0x3A then cons_token TColon (tokenize cs)
      else if c = 0x2C then cons_token TComma (tokenize cs)
      else if c = 0x22 then
        (case lex_string cs of
           None \<Rightarrow> None
         | Some (s, rest) \<Rightarrow> cons_token (TString s) (tokenize rest))
      else if c = 0x2D \<or> is_digit c then
        (case lex_number (c # cs) of
           None \<Rightarrow> None
         | Some (r, rest) \<Rightarrow> cons_token (TNumber r) (tokenize rest))
      else if c = 0x74 then
        (case cs of
           r # u # e # rest \<Rightarrow>
             if r = 0x72 \<and> u = 0x75 \<and> e = 0x65 then cons_token TTrue (tokenize rest) else None
         | _ \<Rightarrow> None)
      else if c = 0x66 then
        (case cs of
           a # l # s # e # rest \<Rightarrow>
             if a = 0x61 \<and> l = 0x6C \<and> s = 0x73 \<and> e = 0x65
             then cons_token TFalse (tokenize rest) else None
         | _ \<Rightarrow> None)
      else if c = 0x6E then
        (case cs of
           u # l # l' # rest \<Rightarrow>
             if u = 0x75 \<and> l = 0x6C \<and> l' = 0x6C then cons_token TNull (tokenize rest) else None
         | _ \<Rightarrow> None)
      else None)"
  by pat_completeness auto
termination
proof (relation "measure length")
  show "wf (measure length)" by simp
qed (auto dest: lex_string_shorter lex_number_shorter)

declare tokenize.simps [simp del]

text \<open>
  The grammar, as a machine over the tokens. A frame is an enclosing array with the
  elements read so far, or an enclosing object with its members so far and the key
  whose value is being read. A repeated key keeps its first position and takes the
  last value, as \<open>JSON.parse\<close> does.
\<close>

datatype frame =
    FArr "js_value list"
  | FObj "(js_string \<times> js_value) list" js_string

datatype pstate =
    PValue "frame list"
  | PArrStart "frame list"
  | PObjStart "frame list"
  | PKey "(js_string \<times> js_value) list" "frame list"
  | PColon "(js_string \<times> js_value) list" js_string "frame list"
  | PAfter js_value "frame list"

fun begin_value :: "frame list \<Rightarrow> token \<Rightarrow> pstate option" where
  "begin_value st TLBrace = Some (PObjStart st)"
| "begin_value st TLBracket = Some (PArrStart st)"
| "begin_value st (TString s) = Some (PAfter (JStr s) st)"
| "begin_value st (TNumber r) = Some (PAfter (JNum r) st)"
| "begin_value st TTrue = Some (PAfter (JBool True) st)"
| "begin_value st TFalse = Some (PAfter (JBool False) st)"
| "begin_value st TNull = Some (PAfter JNull st)"
| "begin_value st t = None"

fun pstep :: "pstate \<Rightarrow> token \<Rightarrow> pstate option" where
  "pstep (PValue st) t = begin_value st t"
| "pstep (PArrStart st) t =
     (if t = TRBracket then Some (PAfter (JArr []) st) else begin_value (FArr [] # st) t)"
| "pstep (PObjStart st) t =
     (case t of
        TRBrace \<Rightarrow> Some (PAfter (JObj []) st)
      | TString k \<Rightarrow> Some (PColon [] k st)
      | _ \<Rightarrow> None)"
| "pstep (PKey ms st) t = (case t of TString k \<Rightarrow> Some (PColon ms k st) | _ \<Rightarrow> None)"
| "pstep (PColon ms k st) t = (if t = TColon then Some (PValue (FObj ms k # st)) else None)"
| "pstep (PAfter v []) t = None"
| "pstep (PAfter v (FArr es # st)) t =
     (if t = TComma then Some (PValue (FArr (es @ [v]) # st))
      else if t = TRBracket then Some (PAfter (JArr (es @ [v])) st)
      else None)"
| "pstep (PAfter v (FObj ms k # st)) t =
     (if t = TComma then Some (PKey (set_prop ms k v) st)
      else if t = TRBrace then Some (PAfter (JObj (set_prop ms k v)) st)
      else None)"

fun prun :: "pstate \<Rightarrow> token list \<Rightarrow> pstate option" where
  "prun s [] = Some s"
| "prun s (t # ts) = (case pstep s t of None \<Rightarrow> None | Some s' \<Rightarrow> prun s' ts)"

fun pfinish :: "pstate \<Rightarrow> js_value option" where
  "pfinish (PAfter v []) = Some v"
| "pfinish s = None"

text \<open>\<open>JSON.parse(text)\<close>; \<open>None\<close> is the \<open>SyntaxError\<close>.\<close>

definition JSON_parse :: "js_string \<Rightarrow> js_value option" where
  "JSON_parse text =
     (case tokenize text of
        None \<Rightarrow> None
      | Some ts \<Rightarrow> (case prun (PValue []) ts of None \<Rightarrow> None | Some s \<Rightarrow> pfinish s))"

section \<open>types.ts\<close>

text \<open>
  The parameter types are the ones zod infers from the schemas, which is what the
  handlers receive: a field with a default is always there, an optional one is an
  \<open>option\<close>.
\<close>

record EmbedField =
  field_name :: js_string
  field_value :: js_string
  field_inline :: bool

record EmbedAuthor =
  author_name :: js_string
  author_url :: "js_string option"
  author_icon_url :: "js_string option"

record EmbedFooter =
  footer_text :: js_string
  footer_icon_url :: "js_string option"

record EmbedImage =
  image_url :: js_string

record Embed =
  embed_title :: "js_string option"
  embed_url :: "js_string option"
  embed_description :: "js_string option"
  embed_timestamp :: "js_string option"
  embed_color :: "rat option"
  embed_footer :: "EmbedFooter option"
  embed_image :: "EmbedImage option"
  embed_thumbnail :: "EmbedImage option"
  embed_author :: "EmbedAuthor option"
  embed_fields :: "EmbedField list option"

datatype mention_type = mention_roles | mention_users | mention_everyone

record AllowedMentions =
  parse :: "mention_type list option"
  roles :: "js_string list option"
  users :: "js_string list option"
  replied_user :: bool

record SendMessageInput =
  content :: "js_string option"
  username :: "js_string option"
  avatar_url :: "js_string option"
  tts :: bool
  embeds :: "Embed list option"
  allowed_mentions :: "AllowedMentions option"
  thread_id :: "js_string option"
  thread_name :: "js_string option"

record EditMessageInput =
  edit_message_id :: js_string
  edit_content :: "js_string option"
  edit_embeds :: "Embed list option"
  edit_allowed_mentions :: "AllowedMentions option"

record DeleteMessageInput =
  delete_message_id :: js_string

text \<open>
  \<open>DiscordWebhookError\<close>. The fields of a \<open>webhook_error\<close> are declared
  \<open>number\<close>, \<open>string\<close>, \<open>string\<close>; at run time they hold whatever
  \<open>convertError\<close> read out of the parsed message.
\<close>

datatype DiscordWebhookError =
    webhook_error js_value js_value js_value
  | validation_error js_string js_string
  | unknown_error js_string

section \<open>The environment\<close>

text \<open>A thrown value: an \<open>Error\<close> with its message, or anything else.\<close>

datatype js_thrown = ErrorObj js_string | NonError js_value

text \<open>
  A \<open>URL\<close> object: everything up to the query, and the query as the list of pairs
  \<open>searchParams\<close> holds.
\<close>

record URL =
  href_base :: js_string
  searchParams :: "(js_string \<times> js_string) list"

text \<open>
  \<open>searchParams.set(name, value)\<close>: the first pair of that name takes the value and
  the others go; with no such pair, one is appended.
\<close>

fun searchParams_set ::
  "(js_string \<times> js_string) list \<Rightarrow> js_string \<Rightarrow> js_string \<Rightarrow> (js_string \<times> js_string) list"
where
  "searchParams_set [] name val = [(name, val)]"
| "searchParams_set ((n, v) # ps) name val =
     (if n = name then (name, val) # filter (\<lambda>p. fst p \<noteq> name) ps
      else (n, v) # searchParams_set ps name val)"

datatype http_method = GET | POST | PATCH | DELETE

text \<open>What a payload object holds under a key.\<close>

datatype payload_value =
    PStr js_string
  | PBool bool
  | PEmbeds "Embed list"
  | PMentions AllowedMentions

type_synonym payload = "(js_string \<times> payload_value) list"

text \<open>
  One call of \<open>fetch\<close>. The URL is kept as the object whose \<open>toString()\<close> is
  passed, the body as the object that \<open>JSON.stringify\<close> serialises.
\<close>

record request =
  req_url :: URL
  req_method :: http_method
  req_headers :: "(js_string \<times> js_string) list"
  req_body :: "payload option"

text \<open>
  A response, once received: \<open>status\<close> is an \<open>unsigned short\<close>, \<open>body\<close> is
  what \<open>response.text()\<close> gives.
\<close>

record response =
  status :: "16 word"
  statusText :: js_string
  body :: js_string

text \<open>
  What the server runs in: the configured webhook URL, the \<open>URL\<close> constructor (it
  throws on a string that is no URL), \<open>fetch\<close> (it throws on a network failure, which
  stands for one while the body is read as well), the
  message of the \<open>SyntaxError\<close> that \<open>JSON.parse\<close> raises on a text, and the
  printing of the numbers \<open>Number_toString\<close> leaves open.
\<close>

record env =
  WEBHOOK_URL :: js_string
  new_URL :: "js_string \<Rightarrow> js_thrown + URL"
  fetch :: "request \<Rightarrow> js_thrown + response"
  SyntaxError_message :: "js_string \<Rightarrow> js_string"
  number_text :: "rat \<Rightarrow> js_string"

section \<open>discord-api.ts\<close>

fun isWebhookError :: "DiscordWebhookError \<Rightarrow> bool" where
  "isWebhookError (webhook_error s t b) = True"
| "isWebhookError e = False"

fun formatError :: "env \<Rightarrow> DiscordWebhookError \<Rightarrow> js_string" where
  "formatError w (webhook_error st stText b) =
     str ''Discord Webhook error: '' @ ToString (number_text w) st @ str '' ''
       @ ToString (number_text w) stText @ [0x0A] @ ToString (number_text w) b"
| "formatError w (validation_error field message) =
     str ''Validation error: '' @ field @ str '' - '' @ message"
| "formatError w (unknown_error message) = str ''Unknown error: '' @ message"

definition response_ok :: "response \<Rightarrow> bool" where
  "response_ok r = (200 \<le> status r \<and> status r \<le> 299)"

text \<open>\<open>response.json()\<close>: the body read as text and parsed.\<close>

definition response_json :: "env \<Rightarrow> response \<Rightarrow> js_thrown + js_value" where
  "response_json w r =
     (case JSON_parse (body r) of
        None \<Rightarrow> Inl (ErrorObj (SyntaxError_message w (body r)))
      | Some v \<Rightarrow> Inr v)"

text \<open>
  Every function that may call \<open>fetch\<close> returns, next to its result, the requests it
  made. \<open>Inl\<close> is a thrown value (a rejected promise).
\<close>

definition makeRequest ::
  "env \<Rightarrow> URL \<Rightarrow> http_method \<Rightarrow> payload option \<Rightarrow> (js_thrown + js_value) \<times> request list"
where
  "makeRequest w url method body' =
     (let options = \<lparr>req_url = url, req_method = method,
                      req_headers = [(str ''Content-Type'', str ''application/json'')],
                      req_body = body'\<rparr>
      in (case fetch w options of
            Inl e \<Rightarrow> Inl e
          | Inr response \<Rightarrow>
              if \<not> response_ok response then
                (let errorText = body response
                 in Inl (ErrorObj
                       (case JSON_stringify (number_text w)
                               (JObj [(str ''status'', JNum (of_nat (unat (status response)))),
                                      (str ''statusText'', JStr (statusText response)),
                                      (str ''body'', JStr errorText)]) of
                          None \<Rightarrow> []
                        | Some t \<Rightarrow> t)))
              else if method = DELETE then Inr JUndefined
              else response_json w response,
          [options]))"

definition startsWith :: "js_string \<Rightarrow> js_string \<Rightarrow> bool" where
  "startsWith s p = (take (length p) s = p)"

text \<open>
  The property reads on \<open>parsed\<close> are inside the \<open>try\<close>: a \<open>TypeError\<close> there ends
  in the \<open>catch\<close> as well.
\<close>

definition convertError :: "env \<Rightarrow> js_thrown \<Rightarrow> DiscordWebhookError" where
  "convertError w error =
     (case error of
        ErrorObj message \<Rightarrow>
          if startsWith message (str ''{'') then
            (case JSON_parse message of
               None \<Rightarrow> unknown_error message
             | Some parsed \<Rightarrow>
                 (case (get_prop parsed (str ''status''), get_prop parsed (str ''statusText''),
                        get_prop parsed (str ''body'')) of
                    (Some st, Some stText, Some b) \<Rightarrow> webhook_error st stText b
                  | _ \<Rightarrow> unknown_error message))
          else unknown_error message
      | NonError v \<Rightarrow> unknown_error (ToString (number_text w) v))"

record api_result =
  result :: js_value
  error :: "DiscordWebhookError option"

definition sendToDiscord ::
  "env \<Rightarrow> payload \<Rightarrow> bool \<Rightarrow> js_string option \<Rightarrow> (js_thrown + api_result) \<times> request list"
where
  "sendToDiscord w payload wait threadId =
     (case new_URL w (WEBHOOK_URL w) of
        Inl e \<Rightarrow> (Inl e, [])
      | Inr url \<Rightarrow>
          (let url = (if wait
                      then url\<lparr>searchParams :=
                             searchParams_set (searchParams url) (str ''wait'') (str ''true'')\<rparr>
                      else url);
               url = (case threadId of
                        None \<Rightarrow> url
                      | Some t \<Rightarrow>
                          if t \<noteq> []
                          then url\<lparr>searchParams :=
                                 searchParams_set (searchParams url) (str ''thread_id'') t\<rparr>
                          else url)
           in case makeRequest w url POST (Some payload) of
                (Inr r, reqs) \<Rightarrow> (Inr \<lparr>result = r, error = None\<rparr>, reqs)
              | (Inl e, reqs) \<Rightarrow> (Inr \<lparr>result = JNull, error = Some (convertError w e)\<rparr>, reqs)))"

definition editDiscordMessage ::
  "env \<Rightarrow> js_string \<Rightarrow> payload \<Rightarrow> (js_thrown + api_result) \<times> request list"
where
  "editDiscordMessage w messageId payload =
     (case new_URL w (WEBHOOK_URL w @ str ''/messages/'' @ messageId) of
        Inl e \<Rightarrow> (Inl e, [])
      | Inr url \<Rightarrow>
          (case makeRequest w url PATCH (Some payload) of
             (Inr r, reqs) \<Rightarrow> (Inr \<lparr>result = r, error = None\<rparr>, reqs)
           | (Inl e, reqs) \<Rightarrow> (Inr \<lparr>result = JNull, error = Some (convertError w e)\<rparr>, reqs)))"

definition deleteDiscordMessage ::
  "env \<Rightarrow> js_string \<Rightarrow> (js_thrown + DiscordWebhookError option) \<times> request list"
where
  "deleteDiscordMessage w messageId =
     (case new_URL w (WEBHOOK_URL w @ str ''/messages/'' @ messageId) of
        Inl e \<Rightarrow> (Inl e, [])
      | Inr url \<Rightarrow>
          (case makeRequest w url DELETE None of
             (Inr r, reqs) \<Rightarrow> (Inr None, reqs)
           | (Inl e, reqs) \<Rightarrow> (Inr (Some (convertError w e)), reqs)))"

section \<open>constants.ts\<close>

definition MAX_CONTENT_LENGTH :: nat where "MAX_CONTENT_LENGTH = 2000"
definition MAX_EMBEDS :: nat where "MAX_EMBEDS = 10"
definition MAX_FIELDS :: nat where "MAX_FIELDS = 25"

section \<open>schemas.ts\<close>

text \<open>
  A zod schema takes a raw value to the parsed value, or rejects it (\<open>None\<close>).
  The combinators are the ones the schemas are written with.
\<close>

type_synonym 'a schema = "js_value \<Rightarrow> 'a option"

text \<open>\<open>z.string().min(lo).max(hi)\<close>; no \<open>.max\<close> is \<open>hi = None\<close>.\<close>

definition z_string :: "nat \<Rightarrow> nat option \<Rightarrow> js_string schema" where
  "z_string lo hi v =
     (case v of
        JStr s \<Rightarrow>
          if lo \<le> length s \<and> (case hi of None \<Rightarrow> True | Some h \<Rightarrow> length s \<le> h)
          then Some s else None
      | _ \<Rightarrow> None)"

text \<open>\<open>z.string().url()\<close>: a string that the \<open>URL\<close> constructor takes.\<close>

definition z_url :: "env \<Rightarrow> js_string schema" where
  "z_url w v =
     (case v of
        JStr s \<Rightarrow> (case new_URL w s of Inl e \<Rightarrow> None | Inr u \<Rightarrow> Some s)
      | _ \<Rightarrow> None)"

definition z_boolean :: "bool schema" where
  "z_boolean v = (case v of JBool b \<Rightarrow> Some b | _ \<Rightarrow> None)"

text \<open>\<open>z.number().int().min(lo).max(hi)\<close>\<close>

definition z_number_int :: "rat \<Rightarrow> rat \<Rightarrow> rat schema" where
  "z_number_int lo hi v =
     (case v of
        JNum r \<Rightarrow> if r = of_int \<lfloor>r\<rfloor> \<and> lo \<le> r \<and> r \<le> hi then Some r else None
      | _ \<Rightarrow> None)"

definition z_enum :: "(js_string \<times> 'a) list \<Rightarrow> 'a schema" where
  "z_enum names v = (case v of JStr s \<Rightarrow> map_of names s | _ \<Rightarrow> None)"

text \<open>\<open>z.array(item).max(hi)\<close>\<close>

definition z_array :: "'a schema \<Rightarrow> nat option \<Rightarrow> 'a list schema" where
  "z_array item hi v =
     (case v of
        JArr xs \<Rightarrow>
          if (case hi of None \<Rightarrow> True | Some h \<Rightarrow> length xs \<le> h)
          then those (map item xs) else None
      | _ \<Rightarrow> None)"

text \<open>\<open>.optional()\<close>\<close>

definition z_optional :: "'a schema \<Rightarrow> 'a option schema" where
  "z_optional inner v = (if v = JUndefined then Some None else map_option Some (inner v))"

text \<open>\<open>.optional().default(d)\<close>: a missing value is parsed as \<open>d\<close>.\<close>

definition z_default :: "js_value \<Rightarrow> 'a schema \<Rightarrow> 'a schema" where
  "z_default d inner v = inner (if v = JUndefined then d else v)"

text \<open>
  \<open>z.object({...}).strict()\<close>: an object none of whose keys is outside the shape;
  the result reads a key of the shape (\<open>undefined\<close> when it is missing).
\<close>

definition z_object_strict :: "js_string list \<Rightarrow> (js_string \<Rightarrow> js_value) schema" where
  "z_object_strict shape v =
     (case v of
        JObj ps \<Rightarrow> if list_all (\<lambda>p. fst p \<in> set shape) ps then Some (own_prop ps) else None
      | _ \<Rightarrow> None)"

definition EmbedFieldSchema :: "EmbedField schema" where
  "EmbedFieldSchema v =
     do {
       get \<leftarrow> z_object_strict [str ''name'', str ''value'', str ''inline''] v;
       name \<leftarrow> z_string 1 None (get (str ''name''));
       val \<leftarrow> z_string 1 None (get (str ''value''));
       inline \<leftarrow> z_default (JBool False) z_boolean (get (str ''inline''));
       Some \<lparr>field_name = name, field_value = val, field_inline = inline\<rparr>
     }"

definition EmbedFooterSchema :: "env \<Rightarrow> EmbedFooter schema" where
  "EmbedFooterSchema w v =
     do {
       get \<leftarrow> z_object_strict [str ''text'', str ''icon_url''] v;
       text \<leftarrow> z_string 1 (Some 2048) (get (str ''text''));
       icon_url \<leftarrow> z_optional (z_url w) (get (str ''icon_url''));
       Some \<lparr>footer_text = text, footer_icon_url = icon_url\<rparr>
     }"

definition EmbedImageSchema :: "env \<Rightarrow> EmbedImage schema" where
  "EmbedImageSchema w v =
     do {
       get \<leftarrow> z_object_strict [str ''url''] v;
       url \<leftarrow> z_url w (get (str ''url''));
       Some \<lparr>image_url = url\<rparr>
     }"

definition EmbedAuthorSchema :: "env \<Rightarrow> EmbedAuthor schema" where
  "EmbedAuthorSchema w v =
     do {
       get \<leftarrow> z_object_strict [str ''name'', str ''url'', str ''icon_url''] v;
       name \<leftarrow> z_string 1 (Some 256) (get (str ''name''));
       url \<leftarrow> z_optional (z_url w) (get (str ''url''));
       icon_url \<leftarrow> z_optional (z_url w) (get (str ''icon_url''));
       Some \<lparr>author_name = name, author_url = url, author_icon_url = icon_url\<rparr>
     }"

definition EmbedSchema :: "env \<Rightarrow> Embed schema" where
  "EmbedSchema w v =
     do {
       get \<leftarrow> z_object_strict
                [str ''title'', str ''url'', str ''description'', str ''timestamp'', str ''color'',
                 str ''footer'', str ''image'', str ''thumbnail'', str ''author'', str ''fields''] v;
       title \<leftarrow> z_optional (z_string 0 (Some 256)) (get (str ''title''));
       url \<leftarrow> z_optional (z_url w) (get (str ''url''));
       description \<leftarrow> z_optional (z_string 0 (Some 4096)) (get (str ''description''));
       timestamp \<leftarrow> z_optional (z_string 0 None) (get (str ''timestamp''));
       color \<leftarrow> z_optional (z_number_int 0 16777215) (get (str ''color''));
       footer \<leftarrow> z_optional (EmbedFooterSchema w) (get (str ''footer''));
       image \<leftarrow> z_optional (EmbedImageSchema w) (get (str ''image''));
       thumbnail \<leftarrow> z_optional (EmbedImageSchema w) (get (str ''thumbnail''));
       author \<leftarrow> z_optional (EmbedAuthorSchema w) (get (str ''author''));
       fields \<leftarrow> z_optional (z_array EmbedFieldSchema (Some MAX_FIELDS)) (get (str ''fields''));
       Some \<lparr>embed_title = title, embed_url = url, embed_description = description,
             embed_timestamp = timestamp, embed_color = color, embed_footer = footer,
             embed_image = image, embed_thumbnail = thumbnail, embed_author = author,
             embed_fields = fields\<rparr>
     }"

definition AllowedMentionsSchema :: "AllowedMentions schema" where
  "AllowedMentionsSchema v =
     do {
       get \<leftarrow> z_object_strict [str ''parse'', str ''roles'', str ''users'', str ''replied_user''] v;
       parse \<leftarrow> z_optional
                  (z_array (z_enum [(str ''roles'', mention_roles), (str ''users'', mention_users),
                                    (str ''everyone'', mention_everyone)]) None)
                  (get (str ''parse''));
       roles \<leftarrow> z_optional (z_array (z_string 0 None) None) (get (str ''roles''));
       users \<leftarrow> z_optional (z_array (z_string 0 None) None) (get (str ''users''));
       replied_user \<leftarrow> z_default (JBool False) z_boolean (get (str ''replied_user''));
       Some \<lparr>parse = parse, roles = roles, users = users, replied_user = replied_user\<rparr>
     }"

definition SendMessageSchema :: "env \<Rightarrow> SendMessageInput schema" where
  "SendMessageSchema w v =
     do {
       get \<leftarrow> z_object_strict
                [str ''content'', str ''username'', str ''avatar_url'', str ''tts'', str ''embeds'',
                 str ''allowed_mentions'', str ''thread_id'', str ''thread_name''] v;
       content \<leftarrow> z_optional (z_string 1 (Some MAX_CONTENT_LENGTH)) (get (str ''content''));
       username \<leftarrow> z_optional (z_string 0 (Some 80)) (get (str ''username''));
       avatar_url \<leftarrow> z_optional (z_url w) (get (str ''avatar_url''));
       tts \<leftarrow> z_default (JBool False) z_boolean (get (str ''tts''));
       embeds \<leftarrow> z_optional (z_array (EmbedSchema w) (Some MAX_EMBEDS)) (get (str ''embeds''));
       allowed_mentions \<leftarrow> z_optional AllowedMentionsSchema (get (str ''allowed_mentions''));
       thread_id \<leftarrow> z_optional (z_string 0 None) (get (str ''thread_id''));
       thread_name \<leftarrow> z_optional (z_string 0 (Some 100)) (get (str ''thread_name''));
       Some \<lparr>content = content, username = username, avatar_url = avatar_url, tts = tts,
             embeds = embeds, allowed_mentions = allowed_mentions, thread_id = thread_id,
             thread_name = thread_name\<rparr>
     }"

definition EditMessageSchema :: "env \<Rightarrow> EditMessageInput schema" where
  "EditMessageSchema w v =
     do {
       get \<leftarrow> z_object_strict
                [str ''message_id'', str ''content'', str ''embeds'', str ''allowed_mentions''] v;
       message_id \<leftarrow> z_string 1 None (get (str ''message_id''));
       content \<leftarrow> z_optional (z_string 1 (Some MAX_CONTENT_LENGTH)) (get (str ''content''));
       embeds \<leftarrow> z_optional (z_array (EmbedSchema w) (Some MAX_EMBEDS)) (get (str ''embeds''));
       allowed_mentions \<leftarrow> z_optional AllowedMentionsSchema (get (str ''allowed_mentions''));
       Some \<lparr>edit_message_id = message_id, edit_content = content, edit_embeds = embeds,
             edit_allowed_mentions = allowed_mentions\<rparr>
     }"

definition DeleteMessageSchema :: "DeleteMessageInput schema" where
  "DeleteMessageSchema v =
     do {
       get \<leftarrow> z_object_strict [str ''message_id''] v;
       message_id \<leftarrow> z_string 1 None (get (str ''message_id''));
       Some \<lparr>delete_message_id = message_id\<rparr>
     }"

section \<open>index.ts\<close>

text \<open>
  A tool result: the one text item of \<open>content\<close>, \<open>structuredContent\<close> and
  \<open>isError\<close>; \<open>None\<close> is a key the handler leaves out.
\<close>

record ToolResult =
  content_text :: js_string
  structuredContent :: "js_value option"
  isError :: "bool option"

text \<open>The Japanese texts of the source, as their UTF-16 code units.\<close>

definition text_error_prefix :: js_string where
  "text_error_prefix = [0x30A8, 0x30E9, 0x30FC, 0x3A, 0x20]"

definition text_content_or_embeds_required :: js_string where
  "text_content_or_embeds_required =
     str ''content'' @ [0x3001] @ str ''embeds '' @
     [0x306E, 0x3046, 0x3061, 0x6700, 0x4F4E, 0x31, 0x3064, 0x3092, 0x6307, 0x5B9A,
      0x3057, 0x3066, 0x304F, 0x3060, 0x3055, 0x3044]"

definition text_message_sent :: js_string where
  "text_message_sent =
     [0x30E1, 0x30C3, 0x30BB, 0x30FC, 0x30B8, 0x3092, 0x9001, 0x4FE1, 0x3057, 0x307E, 0x3057, 0x305F]"

definition text_channel :: js_string where
  "text_channel = [0x30C1, 0x30E3, 0x30F3, 0x30CD, 0x30EB, 0x3A, 0x20]"

definition text_message_edited :: js_string where
  "text_message_edited =
     [0x30E1, 0x30C3, 0x30BB, 0x30FC, 0x30B8, 0x3092, 0x7DE8, 0x96C6, 0x3057, 0x307E, 0x3057, 0x305F]"

definition text_edit_failed :: js_string where
  "text_edit_failed =
     [0x30E1, 0x30C3, 0x30BB, 0x30FC, 0x30B8, 0x306E, 0x7DE8, 0x96C6, 0x306B, 0x5931, 0x6557,
      0x3057, 0x307E, 0x3057, 0x305F]"

definition text_message_deleted :: js_string where
  "text_message_deleted =
     [0x30E1, 0x30C3, 0x30BB, 0x30FC, 0x30B8, 0x3092, 0x524A, 0x9664, 0x3057, 0x307E, 0x3057, 0x305F]"

text \<open>\<open>x && x.length > 0\<close>, and \<open>if (x)\<close>, on an optional string or array.\<close>

definition nonempty :: "'a list option \<Rightarrow> bool" where
  "nonempty x = (case x of None \<Rightarrow> False | Some xs \<Rightarrow> 0 < length xs)"

text \<open>The payload of a send, as the handler builds it key by key.\<close>

definition send_payload :: "SendMessageInput \<Rightarrow> payload" where
  "send_payload params =
     (let hasContent = nonempty (content params);
          hasEmbeds = nonempty (embeds params);
          payload = [];
          payload = (if hasContent
                     then set_prop payload (str ''content'') (PStr (the (content params)))
                     else payload);
          payload = (if nonempty (username params)
                     then set_prop payload (str ''username'') (PStr (the (username params)))
                     else payload);
          payload = (if nonempty (avatar_url params)
                     then set_prop payload (str ''avatar_url'') (PStr (the (avatar_url params)))
                     else payload);
          payload = (if tts params
                     then set_prop payload (str ''tts'') (PBool (tts params))
                     else payload);
          payload = (if hasEmbeds
                     then set_prop payload (str ''embeds'') (PEmbeds (the (embeds params)))
                     else payload);
          payload = (if allowed_mentions params \<noteq> None
                     then set_prop payload (str ''allowed_mentions'')
                            (PMentions (the (allowed_mentions params)))
                     else payload);
          payload = (if nonempty (thread_name params)
                     then set_prop payload (str ''thread_name'') (PStr (the (thread_name params)))
                     else payload)
      in payload)"

definition discord_send_message ::
  "env \<Rightarrow> SendMessageInput \<Rightarrow> (js_thrown + ToolResult) \<times> request list"
where
  "discord_send_message w params =
     (let hasContent = nonempty (content params);
          hasEmbeds = nonempty (embeds params)
      in if \<not> hasContent \<and> \<not> hasEmbeds then
           (Inr \<lparr>content_text = text_error_prefix @ text_content_or_embeds_required,
                 structuredContent = None, isError = Some True\<rparr>, [])
         else
           (case sendToDiscord w (send_payload params) True (thread_id params) of
              (Inl e, reqs) \<Rightarrow> (Inl e, reqs)
            | (Inr r, reqs) \<Rightarrow>
                (case error r of
                   Some err \<Rightarrow>
                     (Inr \<lparr>content_text = text_error_prefix @ formatError w err,
                           structuredContent = None, isError = Some True\<rparr>, reqs)
                 | None \<Rightarrow>
                     (let messageInfo = result r
                      in (Inr \<lparr>content_text =
                                  (if truthy messageInfo
                                   then text_message_sent @ [0x0A] @ str ''ID: ''
                                          @ ToString (number_text w) (opt_chain messageInfo (str ''id''))
                                          @ [0x0A] @ text_channel
                                          @ ToString (number_text w)
                                              (opt_chain messageInfo (str ''channel_id''))
                                   else text_message_sent),
                                structuredContent = Some (JObj
                                  [(str ''success'', JBool True),
                                   (str ''message_id'', opt_chain messageInfo (str ''id'')),
                                   (str ''channel_id'', opt_chain messageInfo (str ''channel_id'')),
                                   (str ''timestamp'', opt_chain messageInfo (str ''timestamp''))]),
                                isError = None\<rparr>, reqs)))))"

text \<open>The payload of an edit.\<close>

definition edit_payload :: "EditMessageInput \<Rightarrow> payload" where
  "edit_payload params =
     (let hasContent = nonempty (edit_content params);
          hasEmbeds = nonempty (edit_embeds params);
          payload = [];
          payload = (if hasContent
                     then set_prop payload (str ''content'') (PStr (the (edit_content params)))
                     else payload);
          payload = (if hasEmbeds
                     then set_prop payload (str ''embeds'') (PEmbeds (the (edit_embeds params)))
                     else payload);
          payload = (if edit_allowed_mentions params \<noteq> None
                     then set_prop payload (str ''allowed_mentions'')
                            (PMentions (the (edit_allowed_mentions params)))
                     else payload)
      in payload)"

definition discord_edit_message ::
  "env \<Rightarrow> EditMessageInput \<Rightarrow> (js_thrown + ToolResult) \<times> request list"
where
  "discord_edit_message w params =
     (let hasContent = nonempty (edit_content params);
          hasEmbeds = nonempty (edit_embeds params)
      in if \<not> hasContent \<and> \<not> hasEmbeds then
           (Inr \<lparr>content_text = text_error_prefix @ text_content_or_embeds_required,
                 structuredContent = None, isError = Some True\<rparr>, [])
         else
           (case editDiscordMessage w (edit_message_id params) (edit_payload params) of
              (Inl e, reqs) \<Rightarrow> (Inl e, reqs)
            | (Inr r, reqs) \<Rightarrow>
                if error r \<noteq> None \<or> \<not> truthy (result r) then
                  (Inr \<lparr>content_text = (case error r of
                                   Some err \<Rightarrow> text_error_prefix @ formatError w err
                                 | None \<Rightarrow> text_error_prefix @ text_edit_failed),
                        structuredContent = None, isError = Some True\<rparr>, reqs)
                else
                  (Inr \<lparr>content_text = text_message_edited @ [0x0A] @ str ''ID: ''
                                 @ ToString (number_text w) (opt_chain (result r) (str ''id'')),
                        structuredContent = Some (JObj
                          [(str ''success'', JBool True),
                           (str ''message_id'', opt_chain (result r) (str ''id'')),
                           (str ''timestamp'', opt_chain (result r) (str ''timestamp''))]),
                        isError = None\<rparr>, reqs)))"

definition discord_delete_message ::
  "env \<Rightarrow> DeleteMessageInput \<Rightarrow> (js_thrown + ToolResult) \<times> request list"
where
  "discord_delete_message w params =
     (case deleteDiscordMessage w (delete_message_id params) of
        (Inl e, reqs) \<Rightarrow> (Inl e, reqs)
      | (Inr (Some err), reqs) \<Rightarrow>
          (Inr \<lparr>content_text = text_error_prefix @ formatError w err,
                structuredContent = None, isError = Some True\<rparr>, reqs)
      | (Inr None, reqs) \<Rightarrow>
          (Inr \<lparr>content_text = text_message_deleted @ [0x0A] @ str ''ID: '' @ delete_message_id params,
                structuredContent = Some (JObj
                  [(str ''success'', JBool True),
                   (str ''message_id'', JStr (delete_message_id params))]),
                isError = None\<rparr>, reqs))"

text \<open>
  A registered tool, as \<open>registerTool\<close> runs it: the arguments are parsed with the
  tool's \<open>inputSchema\<close>, and the handler is called with the parsed value only when
  the schema accepts them.
\<close>

datatype tool_outcome = InvalidParams | Threw js_thrown | Returned ToolResult

definition call_tool ::
  "'p schema \<Rightarrow> ('p \<Rightarrow> (js_thrown + ToolResult) \<times> request list) \<Rightarrow> js_value
     \<Rightarrow> tool_outcome \<times> request list"
where
  "call_tool inputSchema handler args =
     (case inputSchema args of
        None \<Rightarrow> (InvalidParams, [])
      | Some params \<Rightarrow>
          (case handler params of
             (Inl e, reqs) \<Rightarrow> (Threw e, reqs)
           | (Inr r, reqs) \<Rightarrow> (Returned r, reqs)))"

definition tool_discord_send_message :: "env \<Rightarrow> js_value \<Rightarrow> tool_outcome \<times> request list" where
  "tool_discord_send_message w = call_tool (SendMessageSchema w) (discord_send_message w)"

definition tool_discord_edit_message :: "env \<Rightarrow> js_value \<Rightarrow> tool_outcome \<times> request list" where
  "tool_discord_edit_message w = call_tool (EditMessageSchema w) (discord_edit_message w)"

definition tool_discord_delete_message :: "env \<Rightarrow> js_value \<Rightarrow> tool_outcome \<times> request list" where
  "tool_discord_delete_message w = call_tool DeleteMessageSchema (discord_delete_message w)"

section \<open>Predicates for the statements\<close>

text \<open>
  The bounds that the specification lists, on the raw arguments of a call: a bounded
  field is missing, or it has the type and stays within the bound.
\<close>

definition string_within :: "nat \<Rightarrow> js_value \<Rightarrow> bool" where
  "string_within n v =
     (case v of JUndefined \<Rightarrow> True | JStr s \<Rightarrow> length s \<le> n | _ \<Rightarrow> False)"

definition array_within :: "nat \<Rightarrow> js_value \<Rightarrow> bool" where
  "array_within n v =
     (case v of JUndefined \<Rightarrow> True | JArr xs \<Rightarrow> length xs \<le> n | _ \<Rightarrow> False)"

definition color_in_range :: "js_value \<Rightarrow> bool" where
  "color_in_range v =
     (case v of
        JUndefined \<Rightarrow> True
      | JNum r \<Rightarrow> r = of_int \<lfloor>r\<rfloor> \<and> 0 \<le> r \<and> r \<le> 16777215
      | _ \<Rightarrow> False)"

definition embed_within_bounds :: "js_value \<Rightarrow> bool" where
  "embed_within_bounds e =
     (string_within 256 (opt_chain e (str ''title'')) \<and>
      string_within 4096 (opt_chain e (str ''description'')) \<and>
      string_within 2048 (opt_chain (opt_chain e (str ''footer'')) (str ''text'')) \<and>
      string_within 256 (opt_chain (opt_chain e (str ''author'')) (str ''name'')) \<and>
      array_within 25 (opt_chain e (str ''fields'')) \<and>
      color_in_range (opt_chain e (str ''color'')))"

definition embeds_within_bounds :: "js_value \<Rightarrow> bool" where
  "embeds_within_bounds v =
     (array_within 10 v \<and> (case v of JArr es \<Rightarrow> list_all embed_within_bounds es | _ \<Rightarrow> True))"

definition send_within_bounds :: "js_value \<Rightarrow> bool" where
  "send_within_bounds args =
     (string_within 2000 (opt_chain args (str ''content'')) \<and>
      string_within 80 (opt_chain args (str ''username'')) \<and>
      string_within 100 (opt_chain args (str ''thread_name'')) \<and>
      embeds_within_bounds (opt_chain args (str ''embeds'')))"

definition edit_within_bounds :: "js_value \<Rightarrow> bool" where
  "edit_within_bounds args =
     (string_within 2000 (opt_chain args (str ''content'')) \<and>
      embeds_within_bounds (opt_chain args (str ''embeds'')))"

text \<open>
  An invariant of the parser after an opening brace: the outermost open container is
  an object, and a finished outermost value is an object.
\<close>

fun is_FObj :: "frame \<Rightarrow> bool" where
  "is_FObj (FObj ms k) = True"
| "is_FObj (FArr es) = False"

fun is_JObj :: "js_value \<Rightarrow> bool" where
  "is_JObj (JObj ps) = True"
| "is_JObj v = False"

fun object_root :: "pstate \<Rightarrow> bool" where
  "object_root (PValue st) = (st \<noteq> [] \<and> is_FObj (last st))"
| "object_root (PArrStart st) = (st \<noteq> [] \<and> is_FObj (last st))"
| "object_root (PObjStart st) = (st = [] \<or> is_FObj (last st))"
| "object_root (PKey ms st) = (st = [] \<or> is_FObj (last st))"
| "object_root (PColon ms k st) = (st = [] \<or> is_FObj (last st))"
| "object_root (PAfter v st) = (if st = [] then is_JObj v else is_FObj (last st))"


section \<open>Example environments\<close>

text \<open>
  Concrete environments and parameters, on which the theorems below are instantiated.
\<close>

definition example_env :: "js_string \<Rightarrow> (request \<Rightarrow> js_thrown + response) \<Rightarrow> env" where
  "example_env webhook f =
     \<lparr>WEBHOOK_URL = webhook,
      new_URL = (\<lambda>s. if startsWith s (str ''https://'')
                       then Inr \<lparr>href_base = s, searchParams = []\<rparr>
                       else Inl (ErrorObj (str ''Invalid URL''))),
      fetch = f,
      SyntaxError_message = (\<lambda>t. str ''Unexpected token''),
      number_text = (\<lambda>r. str ''NaN'')\<rparr>"

definition example_webhook :: js_string where
  "example_webhook = str ''https://discord.com/api/webhooks/1/token''"

definition fetch_failed :: "request \<Rightarrow> js_thrown + response" where
  "fetch_failed req = Inl (ErrorObj (str ''fetch failed''))"

definition no_params :: SendMessageInput where
  "no_params = \<lparr>content = None, username = None, avatar_url = None, tts = False, embeds = None,
                 allowed_mentions = None, thread_id = None, thread_name = None\<rparr>"

definition edit_params_hi :: EditMessageInput where
  "edit_params_hi = \<lparr>edit_message_id = str ''1'', edit_content = Some (str ''hi''),
                       edit_embeds = None, edit_allowed_mentions = None\<rparr>"

definition params_hi :: SendMessageInput where
  "params_hi = no_params\<lparr>content := Some (str ''hi'')\<rparr>"



definition request_hi :: request where
  "request_hi =
     \<lparr>req_url = \<lparr>href_base = example_webhook, searchParams = [(str ''wait'', str ''true'')]\<rparr>,
      req_method = POST,
      req_headers = [(str ''Content-Type'', str ''application/json'')],
      req_body = Some [(str ''content'', PStr (str ''hi''))]\<rparr>"

definition fetch_no_content :: "request \<Rightarrow> js_thrown + response" where
  "fetch_no_content req = Inr \<lparr>status = 204, statusText = str ''No Content'', body = []\<rparr>"

definition request_delete :: request where
  "request_delete =
     \<lparr>req_url = \<lparr>href_base = example_webhook @ str ''/messages/1'', searchParams = []\<rparr>,
      req_method = DELETE,
      req_headers = [(str ''Content-Type'', str ''application/json'')],
      req_body = None\<rparr>"

definition no_edit_params :: EditMessageInput where
  "no_edit_params = \<lparr>edit_message_id = str ''1'', edit_content = None, edit_embeds = None,
                      edit_allowed_mentions = None\<rparr>"

definition fetch_unknown_message :: "request \<Rightarrow> js_thrown + response" where
  "fetch_unknown_message req =
     Inr \<lparr>status = 404, statusText = str ''Not Found'', body = str ''Unknown Message''\<rparr>"

definition request_edit :: request where
  "request_edit =
     \<lparr>req_url = \<lparr>href_base = example_webhook @ str ''/messages/1'', searchParams = []\<rparr>,
      req_method = PATCH,
      req_headers = [(str ''Content-Type'', str ''application/json'')],
      req_body = Some [(str ''content'', PStr (str ''hi''))]\<rparr>"

definition args_with_embed :: js_value where
  "args_with_embed =
     JObj [(str ''content'', JStr (str ''hi'')),
           (str ''embeds'', JArr [JObj [(str ''title'', JStr (str ''t'')),
                                        (str ''color'', JNum 65280)]])]"

definition args_color_too_large :: js_value where
  "args_color_too_large =
     JObj [(str ''content'', JStr (str ''hi'')),
           (str ''embeds'', JArr [JObj [(str ''title'', JStr (str ''t'')),
                                        (str ''color'', JNum 16777216)]])]"

definition edit_args_with_embed :: js_value where
  "edit_args_with_embed =
     JObj [(str ''message_id'', JStr (str ''1'')),
           (str ''embeds'', JArr [JObj [(str ''description'', JStr (str ''d''))]])]"

definition edit_args_content_too_long :: js_value where
  "edit_args_content_too_long =
     JObj [(str ''message_id'', JStr (str ''1'')),
           (str ''content'', JStr (replicate 2001 0x61))]"


section \<open>Basic facts\<close>

lemma unat_of_char: "unat (of_char c :: code_unit) = of_char c"
proof -
  have "(of_char c :: code_unit) = of_nat (of_char c)" by (simp add: of_nat_of_char)
  then have "unat (of_char c :: code_unit) = (of_char c :: nat) mod 2 ^ 16"
    by (simp add: unat_of_nat)
  moreover have "(of_char c :: nat) < 256" by (rule nat_of_char_less_256)
  ultimately show ?thesis by simp
qed

lemma of_char_code_unit_inj: "(of_char c :: code_unit) = of_char d \<longleftrightarrow> c = d"
proof
  assume "(of_char c :: code_unit) = of_char d"
  then have "unat (of_char c :: code_unit) = unat (of_char d :: code_unit)" by simp
  then have "(of_char c :: nat) = of_char d" by (simp only: unat_of_char)
  then show "c = d" by simp
qed simp

lemma str_eq_iff [simp]: "str a = str b \<longleftrightarrow> a = b"
  unfolding str_def
  by (rule inj_map_eq_map) (auto simp: inj_on_def of_char_code_unit_inj)

lemma str_Nil [simp]: "str [] = []" by (simp add: str_def)
lemma str_eq_Nil [simp]: "str a = [] \<longleftrightarrow> a = []" by (simp add: str_def)
lemma length_str [simp]: "length (str a) = length a" by (simp add: str_def)

lemma set_set_prop: "x \<in> set (set_prop ps k v) \<Longrightarrow> x = (k, v) \<or> x \<in> set ps"
  by (induction ps) (auto split: if_splits)

lemma filter_searchParams_set_same:
  "filter (\<lambda>p. fst p = name) (searchParams_set ps name v) = [(name, v)]"
  by (induction ps) (auto simp: filter_empty_conv)

lemma filter_searchParams_set_other:
  "k \<noteq> name \<Longrightarrow>
   filter (\<lambda>p. fst p = k) (searchParams_set ps name v) = filter (\<lambda>p. fst p = k) ps"
proof (induction ps)
  case Nil
  then show ?case by simp
next
  case (Cons a ps)
  have "filter (\<lambda>p. fst p = k) (filter (\<lambda>p. fst p \<noteq> name) ps) = filter (\<lambda>p. fst p = k) ps"
    using Cons.prems by (induction ps) auto
  with Cons show ?case by (cases a) auto
qed

lemma in_cond_set_prop:
  "x \<in> set (if c then set_prop ps k v else ps) \<Longrightarrow> (c \<and> x = (k, v)) \<or> x \<in> set ps"
  by (auto dest: set_set_prop split: if_splits)

lemma nonempty_the: "nonempty x \<Longrightarrow> \<exists>c. x = Some c \<and> c \<noteq> [] \<and> the x = c"
  by (auto simp: nonempty_def split: option.splits)

lemma send_payload_keys:
  "(k, v) \<in> set (send_payload p) \<Longrightarrow>
     (k = str ''content'' \<and> (\<exists>c. content p = Some c \<and> c \<noteq> [] \<and> v = PStr c)) \<or>
     (k = str ''username'' \<and> (\<exists>c. username p = Some c \<and> c \<noteq> [] \<and> v = PStr c)) \<or>
     (k = str ''avatar_url'' \<and> (\<exists>c. avatar_url p = Some c \<and> c \<noteq> [] \<and> v = PStr c)) \<or>
     (k = str ''tts'' \<and> tts p \<and> v = PBool True) \<or>
     (k = str ''embeds'' \<and> (\<exists>es. embeds p = Some es \<and> es \<noteq> [] \<and> v = PEmbeds es)) \<or>
     (k = str ''allowed_mentions'' \<and> (\<exists>m. allowed_mentions p = Some m \<and> v = PMentions m)) \<or>
     (k = str ''thread_name'' \<and> (\<exists>c. thread_name p = Some c \<and> c \<noteq> [] \<and> v = PStr c))"
  unfolding send_payload_def Let_def
  apply (drule in_cond_set_prop, erule disjE, use nonempty_the in force)+
  apply simp
  done

lemma take_str [simp]: "take n (str s) = str (take n s)"
  by (simp add: str_def take_map)

lemma snd_makeRequest:
  "snd (makeRequest w url method b) =
     [\<lparr>req_url = url, req_method = method,
       req_headers = [(str ''Content-Type'', str ''application/json'')], req_body = b\<rparr>]"
  by (simp add: makeRequest_def Let_def)

lemma makeRequest_reqsD:
  assumes "makeRequest w url m b = (r, reqs)"
  shows "reqs = [\<lparr>req_url = url, req_method = m,
            req_headers = [(str ''Content-Type'', str ''application/json'')], req_body = b\<rparr>]"
  using snd_makeRequest [of w url m b] assms by simp

lemma sendToDiscord_requests:
  "req \<in> set (snd (sendToDiscord w payload wait threadId)) \<Longrightarrow>
   \<exists>u. new_URL w (WEBHOOK_URL w) = Inr u \<and>
       req_body req = Some payload \<and> req_method req = POST \<and>
       searchParams (req_url req) =
         (let q = (if wait then searchParams_set (searchParams u) (str ''wait'') (str ''true'')
                   else searchParams u)
          in if nonempty threadId then searchParams_set q (str ''thread_id'') (the threadId) else q)"
  unfolding sendToDiscord_def
  by (cases "new_URL w (WEBHOOK_URL w)")
     (auto simp: Let_def nonempty_def split: prod.splits sum.splits option.splits if_splits
           dest!: makeRequest_reqsD)

lemma discord_send_message_requests:
  "req \<in> set (snd (discord_send_message w params)) \<Longrightarrow>
   req \<in> set (snd (sendToDiscord w (send_payload params) True (thread_id params)))"
  unfolding discord_send_message_def
  by (auto simp: Let_def split: prod.splits sum.splits option.splits if_splits)

lemma example_send_requests:
  "snd (discord_send_message (example_env example_webhook fetch_failed)
          (no_params\<lparr>content := Some (str ''hi''), thread_id := Some (str ''77'')\<rparr>)) =
   [\<lparr>req_url = \<lparr>href_base = example_webhook,
                  searchParams = [(str ''wait'', str ''true''), (str ''thread_id'', str ''77'')]\<rparr>,
      req_method = POST,
      req_headers = [(str ''Content-Type'', str ''application/json'')],
      req_body = Some [(str ''content'', PStr (str ''hi''))]\<rparr>]"
  by (simp add: discord_send_message_def sendToDiscord_def makeRequest_def send_payload_def
        example_env_def example_webhook_def fetch_failed_def no_params_def nonempty_def
        startsWith_def Let_def)

section \<open>Properties\<close>

text \<open>
  C5 as stated fails where the thread id is present and empty (the schema accepts any
  string): \<open>if (threadId)\<close> is false for it, and the request goes out with no
  \<open>thread_id\<close> pair in its query.
\<close>

theorem empty_thread_id_counterexample:
  "thread_id (params_hi\<lparr>thread_id := Some []\<rparr>) = Some [] \<and>
   SendMessageSchema (example_env example_webhook fetch_failed)
     (JObj [(str ''content'', JStr (str ''hi'')), (str ''thread_id'', JStr [])])
     = Some (params_hi\<lparr>thread_id := Some []\<rparr>) \<and>
   snd (discord_send_message (example_env example_webhook fetch_failed)
          (params_hi\<lparr>thread_id := Some []\<rparr>)) = [request_hi] \<and>
   filter (\<lambda>q. fst q = str ''thread_id'') (searchParams (req_url request_hi)) = []"
  by (simp add: discord_send_message_def sendToDiscord_def makeRequest_def send_payload_def
        example_env_def example_webhook_def fetch_failed_def no_params_def nonempty_def
        startsWith_def Let_def params_hi_def request_hi_def
        SendMessageSchema_def z_object_strict_def z_string_def z_optional_def
        z_default_def z_boolean_def z_array_def z_url_def own_prop_def MAX_CONTENT_LENGTH_def)

text \<open>
  C5, amended. No request of a send carries the key \<open>thread_id\<close> in its body. A
  thread id that is given and not empty is the one \<open>thread_id\<close> pair of the request's
  query; one that is missing or empty leaves the query's \<open>thread_id\<close> pairs as the
  configured URL has them.
\<close>

theorem thread_id_only_in_query:
  "req \<in> set (snd (discord_send_message w params)) \<longrightarrow>
     (\<exists>payload. req_body req = Some payload \<and> str ''thread_id'' \<notin> fst ` set payload) \<and>
     (\<forall>t. thread_id params = Some t \<and> t \<noteq> [] \<longrightarrow>
          filter (\<lambda>q. fst q = str ''thread_id'') (searchParams (req_url req))
            = [(str ''thread_id'', t)]) \<and>
     (\<forall>u. new_URL w (WEBHOOK_URL w) = Inr u \<and> \<not> nonempty (thread_id params) \<longrightarrow>
          filter (\<lambda>q. fst q = str ''thread_id'') (searchParams (req_url req))
            = filter (\<lambda>q. fst q = str ''thread_id'') (searchParams u))"
proof
  assume "req \<in> set (snd (discord_send_message w params))"
  then have "req \<in> set (snd (sendToDiscord w (send_payload params) True (thread_id params)))"
    by (rule discord_send_message_requests)
  then obtain u where u: "new_URL w (WEBHOOK_URL w) = Inr u"
    and b: "req_body req = Some (send_payload params)"
    and q: "searchParams (req_url req) =
         (let q = searchParams_set (searchParams u) (str ''wait'') (str ''true'')
          in if nonempty (thread_id params)
             then searchParams_set q (str ''thread_id'') (the (thread_id params)) else q)"
    by (auto dest!: sendToDiscord_requests)
  have "str ''thread_id'' \<notin> fst ` set (send_payload params)"
    by (auto dest!: send_payload_keys)
  with b have 1: "\<exists>payload. req_body req = Some payload \<and> str ''thread_id'' \<notin> fst ` set payload"
    by simp
  have 2: "\<forall>t. thread_id params = Some t \<and> t \<noteq> [] \<longrightarrow>
          filter (\<lambda>q. fst q = str ''thread_id'') (searchParams (req_url req))
            = [(str ''thread_id'', t)]"
    using q by (auto simp: nonempty_def Let_def filter_searchParams_set_same)
  have 3: "\<forall>u. new_URL w (WEBHOOK_URL w) = Inr u \<and> \<not> nonempty (thread_id params) \<longrightarrow>
          filter (\<lambda>q. fst q = str ''thread_id'') (searchParams (req_url req))
            = filter (\<lambda>q. fst q = str ''thread_id'') (searchParams u)"
    using q u by (auto simp: Let_def filter_searchParams_set_other)
  from 1 2 3 show "(\<exists>payload. req_body req = Some payload \<and> str ''thread_id'' \<notin> fst ` set payload) \<and>
     (\<forall>t. thread_id params = Some t \<and> t \<noteq> [] \<longrightarrow>
          filter (\<lambda>q. fst q = str ''thread_id'') (searchParams (req_url req))
            = [(str ''thread_id'', t)]) \<and>
     (\<forall>u. new_URL w (WEBHOOK_URL w) = Inr u \<and> \<not> nonempty (thread_id params) \<longrightarrow>
          filter (\<lambda>q. fst q = str ''thread_id'') (searchParams (req_url req))
            = filter (\<lambda>q. fst q = str ''thread_id'') (searchParams u))"
    by blast
qed

theorem thread_id_only_in_query_witness:
  "(let w = example_env example_webhook fetch_failed;
        params = no_params\<lparr>content := Some (str ''hi''), thread_id := Some (str ''77'')\<rparr>;
        req = hd (snd (discord_send_message w params))
    in req \<in> set (snd (discord_send_message w params)) \<and>
       req_body req = Some [(str ''content'', PStr (str ''hi''))] \<and>
       filter (\<lambda>q. fst q = str ''thread_id'') (searchParams (req_url req)) =
         [(str ''thread_id'', str ''77'')])"
  using thread_id_only_in_query
    [of "hd (snd (discord_send_message (example_env example_webhook fetch_failed)
           (no_params\<lparr>content := Some (str ''hi''), thread_id := Some (str ''77'')\<rparr>)))"
        "example_env example_webhook fetch_failed"
        "no_params\<lparr>content := Some (str ''hi''), thread_id := Some (str ''77'')\<rparr>"]
  by (simp add: example_send_requests Let_def)

lemma edit_payload_keys:
  "(k, v) \<in> set (edit_payload p) \<Longrightarrow>
     (k = str ''content'' \<and> (\<exists>c. edit_content p = Some c \<and> c \<noteq> [] \<and> v = PStr c)) \<or>
     (k = str ''embeds'' \<and> (\<exists>es. edit_embeds p = Some es \<and> es \<noteq> [] \<and> v = PEmbeds es)) \<or>
     (k = str ''allowed_mentions'' \<and> (\<exists>m. edit_allowed_mentions p = Some m \<and> v = PMentions m))"
  unfolding edit_payload_def Let_def
  apply (drule in_cond_set_prop, erule disjE, use nonempty_the in force)+
  apply simp
  done

lemma editDiscordMessage_requests:
  "req \<in> set (snd (editDiscordMessage w messageId payload)) \<Longrightarrow>
   \<exists>u. new_URL w (WEBHOOK_URL w @ str ''/messages/'' @ messageId) = Inr u \<and>
       req = \<lparr>req_url = u, req_method = PATCH,
              req_headers = [(str ''Content-Type'', str ''application/json'')],
              req_body = Some payload\<rparr>"
  unfolding editDiscordMessage_def
  by (cases "new_URL w (WEBHOOK_URL w @ str ''/messages/'' @ messageId)")
     (auto split: prod.splits sum.splits dest!: makeRequest_reqsD)

lemma deleteDiscordMessage_requests:
  "req \<in> set (snd (deleteDiscordMessage w messageId)) \<Longrightarrow>
   \<exists>u. new_URL w (WEBHOOK_URL w @ str ''/messages/'' @ messageId) = Inr u \<and>
       req = \<lparr>req_url = u, req_method = DELETE,
              req_headers = [(str ''Content-Type'', str ''application/json'')],
              req_body = None\<rparr>"
  unfolding deleteDiscordMessage_def
  by (cases "new_URL w (WEBHOOK_URL w @ str ''/messages/'' @ messageId)")
     (auto split: prod.splits sum.splits dest!: makeRequest_reqsD)

lemma discord_edit_message_requests:
  "req \<in> set (snd (discord_edit_message w params)) \<Longrightarrow>
   req \<in> set (snd (editDiscordMessage w (edit_message_id params) (edit_payload params)))"
  unfolding discord_edit_message_def
  by (auto simp: Let_def split: prod.splits sum.splits option.splits if_splits)

lemma discord_delete_message_requests:
  "req \<in> set (snd (discord_delete_message w params)) \<Longrightarrow>
   req \<in> set (snd (deleteDiscordMessage w (delete_message_id params)))"
  unfolding discord_delete_message_def
  by (auto simp: Let_def split: prod.splits sum.splits option.splits if_splits)

lemma call_tool_requests:
  "req \<in> set (snd (call_tool inputSchema handler args)) \<Longrightarrow>
   \<exists>params. inputSchema args = Some params \<and> req \<in> set (snd (handler params))"
  unfolding call_tool_def
  by (auto split: option.splits prod.splits sum.splits)

lemma z_object_strict_keys:
  "z_object_strict shape v = Some get \<Longrightarrow>
   \<exists>ps. v = JObj ps \<and> get = own_prop ps \<and> fst ` set ps \<subseteq> set shape"
  by (auto simp: z_object_strict_def list_all_iff split: js_value.splits if_splits)

lemma EditMessageSchema_keys:
  "EditMessageSchema w args = Some params \<Longrightarrow>
   \<exists>ps. args = JObj ps \<and>
     fst ` set ps \<subseteq> {str ''message_id'', str ''content'', str ''embeds'', str ''allowed_mentions''}"
  unfolding EditMessageSchema_def
  by (auto split: Option.bind_splits dest!: z_object_strict_keys)

text \<open>
  C6. Every request of an edit carries a body whose keys are among \<open>content\<close>,
  \<open>embeds\<close> and \<open>allowed_mentions\<close>, for the handler on any parameters and for
  the registered tool on any raw arguments; raw arguments that carry a create-only key
  are rejected by the schema, and nothing is sent.
\<close>

theorem edit_forwards_only_whitelist:
  "(req \<in> set (snd (discord_edit_message w params)) \<longrightarrow>
      (\<exists>payload. req_body req = Some payload \<and>
         fst ` set payload \<subseteq> {str ''content'', str ''embeds'', str ''allowed_mentions''})) \<and>
   (req \<in> set (snd (tool_discord_edit_message w args)) \<longrightarrow>
      (\<exists>payload. req_body req = Some payload \<and>
         fst ` set payload \<subseteq> {str ''content'', str ''embeds'', str ''allowed_mentions''})) \<and>
   (k \<in> {str ''username'', str ''avatar_url'', str ''tts'', str ''thread_id'', str ''thread_name''}
      \<and> k \<in> fst ` set ps \<longrightarrow>
      tool_discord_edit_message w (JObj ps) = (InvalidParams, []))"
proof -
  have keys: "fst ` set (edit_payload p) \<subseteq> {str ''content'', str ''embeds'', str ''allowed_mentions''}"
    for p
    by (auto dest!: edit_payload_keys)
  have 1: "\<exists>payload. req_body req = Some payload \<and>
         fst ` set payload \<subseteq> {str ''content'', str ''embeds'', str ''allowed_mentions''}"
    if "req \<in> set (snd (discord_edit_message w p))" for p
  proof -
    from that have "req_body req = Some (edit_payload p)"
      by (auto dest!: discord_edit_message_requests editDiscordMessage_requests)
    with keys [of p] show ?thesis by blast
  qed
  have 2: "\<exists>payload. req_body req = Some payload \<and>
         fst ` set payload \<subseteq> {str ''content'', str ''embeds'', str ''allowed_mentions''}"
    if "req \<in> set (snd (tool_discord_edit_message w args))"
  proof -
    from that obtain p where "req \<in> set (snd (discord_edit_message w p))"
      unfolding tool_discord_edit_message_def by (auto dest!: call_tool_requests)
    then show ?thesis by (rule 1)
  qed
  have 3: "tool_discord_edit_message w (JObj ps) = (InvalidParams, [])"
    if "k \<in> {str ''username'', str ''avatar_url'', str ''tts'', str ''thread_id'', str ''thread_name''}"
      and "k \<in> fst ` set ps"
  proof -
    have "EditMessageSchema w (JObj ps) = None"
    proof (cases "EditMessageSchema w (JObj ps)")
      case None
      then show ?thesis .
    next
      case (Some p)
      then have "fst ` set ps \<subseteq> {str ''message_id'', str ''content'', str ''embeds'', str ''allowed_mentions''}"
        by (auto dest!: EditMessageSchema_keys)
      with that have False by auto
      then show ?thesis ..
    qed
    then show ?thesis
      by (simp add: tool_discord_edit_message_def call_tool_def)
  qed
  from 1 [of params] 2 3 show ?thesis by blast
qed

lemma append_str [simp]: "str a @ str b = str (a @ b)"
  by (simp add: str_def)

lemma example_edit_requests:
  "snd (discord_edit_message (example_env example_webhook fetch_failed) edit_params_hi) =
   [\<lparr>req_url = \<lparr>href_base = example_webhook @ str ''/messages/1'', searchParams = []\<rparr>,
      req_method = PATCH,
      req_headers = [(str ''Content-Type'', str ''application/json'')],
      req_body = Some [(str ''content'', PStr (str ''hi''))]\<rparr>]"
  by (simp add: discord_edit_message_def editDiscordMessage_def makeRequest_def edit_payload_def
        example_env_def example_webhook_def fetch_failed_def edit_params_hi_def nonempty_def
        startsWith_def Let_def)

lemma example_edit_schema:
  "EditMessageSchema w (JObj [(str ''message_id'', JStr (str ''1'')),
                               (str ''content'', JStr (str ''hi''))]) = Some edit_params_hi"
  by (simp add: EditMessageSchema_def z_object_strict_def z_string_def z_optional_def
        z_array_def own_prop_def edit_params_hi_def MAX_CONTENT_LENGTH_def)

lemma snd_call_tool:
  "snd (call_tool inputSchema handler args) =
     (case inputSchema args of None \<Rightarrow> [] | Some params \<Rightarrow> snd (handler params))"
  by (simp add: call_tool_def split: option.splits prod.splits sum.splits)

lemma example_edit_tool_requests:
  "snd (tool_discord_edit_message (example_env example_webhook fetch_failed)
         (JObj [(str ''message_id'', JStr (str ''1'')), (str ''content'', JStr (str ''hi''))])) =
   [\<lparr>req_url = \<lparr>href_base = example_webhook @ str ''/messages/1'', searchParams = []\<rparr>,
      req_method = PATCH,
      req_headers = [(str ''Content-Type'', str ''application/json'')],
      req_body = Some [(str ''content'', PStr (str ''hi''))]\<rparr>]"
  by (simp add: tool_discord_edit_message_def snd_call_tool example_edit_schema
        example_edit_requests)

theorem edit_forwards_only_whitelist_witness:
  "hd (snd (discord_edit_message (example_env example_webhook fetch_failed) edit_params_hi))
     \<in> set (snd (discord_edit_message (example_env example_webhook fetch_failed) edit_params_hi)) \<and>
   hd (snd (discord_edit_message (example_env example_webhook fetch_failed) edit_params_hi))
     \<in> set (snd (tool_discord_edit_message (example_env example_webhook fetch_failed)
         (JObj [(str ''message_id'', JStr (str ''1'')), (str ''content'', JStr (str ''hi''))]))) \<and>
   req_body (hd (snd (discord_edit_message (example_env example_webhook fetch_failed)
                        edit_params_hi))) = Some [(str ''content'', PStr (str ''hi''))] \<and>
   str ''username'' \<in> fst ` set [(str ''message_id'', JStr (str ''1'')),
                                   (str ''content'', JStr (str ''hi'')),
                                   (str ''username'', JStr (str ''bot''))] \<and>
   tool_discord_edit_message (example_env example_webhook fetch_failed)
     (JObj [(str ''message_id'', JStr (str ''1'')), (str ''content'', JStr (str ''hi'')),
            (str ''username'', JStr (str ''bot''))]) = (InvalidParams, [])"
  using edit_forwards_only_whitelist
    [of "hd (snd (discord_edit_message (example_env example_webhook fetch_failed) edit_params_hi))"
        "example_env example_webhook fetch_failed" edit_params_hi
        "JObj [(str ''message_id'', JStr (str ''1'')), (str ''content'', JStr (str ''hi''))]"
        "str ''username''"
        "[(str ''message_id'', JStr (str ''1'')), (str ''content'', JStr (str ''hi'')),
          (str ''username'', JStr (str ''bot''))]"]
  by (simp add: example_edit_requests example_edit_tool_requests)

lemma example_send_schema:
  "SendMessageSchema w (JObj [(str ''content'', JStr (str ''hi''))]) = Some params_hi"
  by (simp add: SendMessageSchema_def z_object_strict_def z_string_def z_optional_def
        z_default_def z_boolean_def z_array_def z_url_def own_prop_def params_hi_def
        no_params_def MAX_CONTENT_LENGTH_def)

lemma example_send_payload:
  "send_payload params_hi = [(str ''content'', PStr (str ''hi''))]"
  by (simp add: send_payload_def params_hi_def no_params_def nonempty_def Let_def)

lemma discord_send_message_body:
  "req \<in> set (snd (discord_send_message w params)) \<Longrightarrow>
   req_body req = Some (send_payload params)"
  by (auto dest!: discord_send_message_requests sendToDiscord_requests)

text \<open>
  C7. A pair of the send payload is one of the seven keys with its source value, and
  that value is present and truthy: a non-empty string, \<open>true\<close>, a non-empty embed
  list, or a mentions object. The payload is the body of the request. The parameters
  parsed from \<open>{content: "hi"}\<close> give the payload with the one key \<open>content\<close>.
\<close>

theorem send_payload_only_truthy_keys:
  "((k, v) \<in> set (send_payload params) \<longrightarrow>
     (k = str ''content'' \<and> (\<exists>c. content params = Some c \<and> c \<noteq> [] \<and> v = PStr c)) \<or>
     (k = str ''username'' \<and> (\<exists>c. username params = Some c \<and> c \<noteq> [] \<and> v = PStr c)) \<or>
     (k = str ''avatar_url'' \<and> (\<exists>c. avatar_url params = Some c \<and> c \<noteq> [] \<and> v = PStr c)) \<or>
     (k = str ''tts'' \<and> tts params \<and> v = PBool True) \<or>
     (k = str ''embeds'' \<and> (\<exists>es. embeds params = Some es \<and> es \<noteq> [] \<and> v = PEmbeds es)) \<or>
     (k = str ''allowed_mentions'' \<and> (\<exists>m. allowed_mentions params = Some m \<and> v = PMentions m)) \<or>
     (k = str ''thread_name'' \<and> (\<exists>c. thread_name params = Some c \<and> c \<noteq> [] \<and> v = PStr c))) \<and>
   (req \<in> set (snd (discord_send_message w params)) \<longrightarrow>
     req_body req = Some (send_payload params)) \<and>
   (\<exists>p. SendMessageSchema w (JObj [(str ''content'', JStr (str ''hi''))]) = Some p \<and>
        send_payload p = [(str ''content'', PStr (str ''hi''))])"
  using send_payload_keys [of k v params] discord_send_message_body [of req w params]
    example_send_schema [of w] example_send_payload
  by blast

lemma example_send_hi_requests:
  "snd (discord_send_message (example_env example_webhook fetch_failed) params_hi) =
   [\<lparr>req_url = \<lparr>href_base = example_webhook,
                  searchParams = [(str ''wait'', str ''true'')]\<rparr>,
      req_method = POST,
      req_headers = [(str ''Content-Type'', str ''application/json'')],
      req_body = Some [(str ''content'', PStr (str ''hi''))]\<rparr>]"
  by (simp add: discord_send_message_def sendToDiscord_def makeRequest_def send_payload_def
        example_env_def example_webhook_def fetch_failed_def no_params_def nonempty_def
        startsWith_def Let_def params_hi_def)

theorem send_payload_only_truthy_keys_witness:
  "(str ''content'', PStr (str ''hi'')) \<in> set (send_payload params_hi) \<and>
   content params_hi = Some (str ''hi'') \<and>
   hd (snd (discord_send_message (example_env example_webhook fetch_failed) params_hi))
     \<in> set (snd (discord_send_message (example_env example_webhook fetch_failed) params_hi)) \<and>
   req_body (hd (snd (discord_send_message (example_env example_webhook fetch_failed) params_hi)))
     = Some [(str ''content'', PStr (str ''hi''))]"
  using send_payload_only_truthy_keys
    [of "str ''content''" "PStr (str ''hi'')" params_hi
        "hd (snd (discord_send_message (example_env example_webhook fetch_failed) params_hi))"
        "example_env example_webhook fetch_failed"]
  by (simp add: example_send_payload example_send_hi_requests)










lemma makeRequest_ok_delete:
  assumes "fetch w \<lparr>req_url = url, req_method = DELETE,
                    req_headers = [(str ''Content-Type'', str ''application/json'')],
                    req_body = b\<rparr> = Inr r"
    and "response_ok r"
  shows "makeRequest w url DELETE b =
           (Inr JUndefined, [\<lparr>req_url = url, req_method = DELETE,
                     req_headers = [(str ''Content-Type'', str ''application/json'')],
                     req_body = b\<rparr>])"
  using assms by (simp add: makeRequest_def Let_def)

lemma deleteDiscordMessage_ok:
  assumes req: "req \<in> set (snd (deleteDiscordMessage w messageId))"
    and f: "fetch w req = Inr r" and ok: "response_ok r"
  shows "deleteDiscordMessage w messageId = (Inr None, [req])"
proof -
  from req obtain u where
    u: "new_URL w (WEBHOOK_URL w @ str ''/messages/'' @ messageId) = Inr u"
    and r: "req = \<lparr>req_url = u, req_method = DELETE,
              req_headers = [(str ''Content-Type'', str ''application/json'')],
              req_body = None\<rparr>"
    by (auto dest!: deleteDiscordMessage_requests)
  have "makeRequest w u DELETE None = (Inr JUndefined, [req])"
    using makeRequest_ok_delete [of w u None r] f ok r by simp
  with u show ?thesis by (simp add: deleteDiscordMessage_def)
qed

text \<open>
  C8. When the response to the request of a delete has a success status, the handler
  returns the success that carries the message identifier, whatever the body of the
  response is (empty, or not JSON): the body is not looked at.
\<close>

theorem delete_success_ignores_body:
  "req \<in> set (snd (discord_delete_message w params)) \<and> fetch w req = Inr r \<and> response_ok r \<longrightarrow>
     discord_delete_message w params =
       (Inr \<lparr>content_text = text_message_deleted @ [0x0A] @ str ''ID: '' @ delete_message_id params,
             structuredContent = Some (JObj
               [(str ''success'', JBool True),
                (str ''message_id'', JStr (delete_message_id params))]),
             isError = None\<rparr>, [req])"
proof
  assume a: "req \<in> set (snd (discord_delete_message w params)) \<and> fetch w req = Inr r \<and> response_ok r"
  then have "req \<in> set (snd (deleteDiscordMessage w (delete_message_id params)))"
    by (auto dest: discord_delete_message_requests)
  with a have "deleteDiscordMessage w (delete_message_id params) = (Inr None, [req])"
    by (auto intro: deleteDiscordMessage_ok)
  then show "discord_delete_message w params =
       (Inr \<lparr>content_text = text_message_deleted @ [0x0A] @ str ''ID: '' @ delete_message_id params,
             structuredContent = Some (JObj
               [(str ''success'', JBool True),
                (str ''message_id'', JStr (delete_message_id params))]),
             isError = None\<rparr>, [req])"
    by (simp add: discord_delete_message_def)
qed

lemma example_delete_requests:
  "snd (discord_delete_message (example_env example_webhook fetch_no_content)
          \<lparr>delete_message_id = str ''1''\<rparr>) = [request_delete]"
  by (simp add: discord_delete_message_def deleteDiscordMessage_def makeRequest_def
        example_env_def example_webhook_def fetch_no_content_def request_delete_def
        response_ok_def startsWith_def Let_def)

theorem delete_success_ignores_body_witness:
  "request_delete \<in> set (snd (discord_delete_message (example_env example_webhook fetch_no_content)
                                  \<lparr>delete_message_id = str ''1''\<rparr>)) \<and>
   fetch (example_env example_webhook fetch_no_content) request_delete
     = Inr \<lparr>status = 204, statusText = str ''No Content'', body = []\<rparr> \<and>
   response_ok \<lparr>status = 204, statusText = str ''No Content'', body = []\<rparr> \<and>
   discord_delete_message (example_env example_webhook fetch_no_content)
       \<lparr>delete_message_id = str ''1''\<rparr> =
     (Inr \<lparr>content_text = text_message_deleted @ [0x0A] @ str ''ID: 1'',
           structuredContent = Some (JObj
             [(str ''success'', JBool True), (str ''message_id'', JStr (str ''1''))]),
           isError = None\<rparr>, [request_delete])"
proof -
  have 1: "request_delete \<in> set (snd (discord_delete_message
             (example_env example_webhook fetch_no_content) \<lparr>delete_message_id = str ''1''\<rparr>))"
    by (simp add: example_delete_requests)
  have 2: "fetch (example_env example_webhook fetch_no_content) request_delete
     = Inr \<lparr>status = 204, statusText = str ''No Content'', body = []\<rparr>"
    by (simp add: example_env_def fetch_no_content_def)
  have 3: "response_ok \<lparr>status = 204, statusText = str ''No Content'', body = []\<rparr>"
    by (simp add: response_ok_def)
  show ?thesis
    using delete_success_ignores_body
      [of request_delete "example_env example_webhook fetch_no_content"
          "\<lparr>delete_message_id = str ''1''\<rparr>"
          "\<lparr>status = 204, statusText = str ''No Content'', body = []\<rparr>"]
      1 2 3
    by simp
qed

lemma required_text_not_formatted:
  "text_error_prefix @ text_content_or_embeds_required \<noteq>
   text_error_prefix @ formatError w (validation_error (str ''content/embeds'') m)"
  by (simp add: text_content_or_embeds_required_def str_def)

text \<open>
  C1. With neither a non-empty content nor a non-empty embed list, the send and the edit
  handler make no request and return an error result (\<open>isError: true\<close>). The result
  has no \<open>structuredContent\<close>, so no \<open>validation_error\<close> and no field
  \<open>content/embeds\<close>, and its text is not what \<open>formatError\<close> gives for a
  \<open>validation_error\<close> on \<open>content/embeds\<close>; the text that the descriptions of
  both tools announce for this case is exactly that rendering.
\<close>

theorem missing_content_and_embeds_result:
  "(\<not> nonempty (content params) \<and> \<not> nonempty (embeds params) \<longrightarrow>
      discord_send_message w params =
        (Inr \<lparr>content_text = text_error_prefix @ text_content_or_embeds_required,
              structuredContent = None, isError = Some True\<rparr>, [])) \<and>
   (\<not> nonempty (edit_content eparams) \<and> \<not> nonempty (edit_embeds eparams) \<longrightarrow>
      discord_edit_message w eparams =
        (Inr \<lparr>content_text = text_error_prefix @ text_content_or_embeds_required,
              structuredContent = None, isError = Some True\<rparr>, [])) \<and>
   text_error_prefix @ text_content_or_embeds_required \<noteq>
     text_error_prefix @ formatError w (validation_error (str ''content/embeds'') m) \<and>
   formatError w (validation_error (str ''content/embeds'') text_content_or_embeds_required) =
     str ''Validation error: content/embeds - '' @ text_content_or_embeds_required"
  using required_text_not_formatted [of w m]
  by (simp add: discord_send_message_def discord_edit_message_def Let_def)

theorem missing_content_and_embeds_result_witness:
  "\<not> nonempty (content no_params) \<and> \<not> nonempty (embeds no_params) \<and>
   discord_send_message (example_env example_webhook fetch_failed) no_params =
     (Inr \<lparr>content_text = text_error_prefix @ text_content_or_embeds_required,
           structuredContent = None, isError = Some True\<rparr>, []) \<and>
   \<not> nonempty (edit_content no_edit_params) \<and> \<not> nonempty (edit_embeds no_edit_params) \<and>
   discord_edit_message (example_env example_webhook fetch_failed) no_edit_params =
     (Inr \<lparr>content_text = text_error_prefix @ text_content_or_embeds_required,
           structuredContent = None, isError = Some True\<rparr>, [])"
  using missing_content_and_embeds_result
    [of no_params "example_env example_webhook fetch_failed" no_edit_params]
  by (simp add: no_params_def no_edit_params_def nonempty_def)

lemma z_optional_string_within:
  "z_optional (z_string lo (Some n)) v = Some x \<Longrightarrow> string_within n v"
  by (auto simp: z_optional_def z_string_def string_within_def
           split: if_splits js_value.splits)

lemma z_string_within:
  "z_string lo (Some n) v = Some x \<Longrightarrow> string_within n v"
  by (auto simp: z_string_def string_within_def split: if_splits js_value.splits)

lemma z_optional_array_within:
  "z_optional (z_array item (Some n)) v = Some x \<Longrightarrow> array_within n v"
  by (auto simp: z_optional_def z_array_def array_within_def
           split: if_splits js_value.splits)

lemma z_optional_color_in_range:
  "z_optional (z_number_int 0 16777215) v = Some x \<Longrightarrow> color_in_range v"
  by (auto simp: z_optional_def z_number_int_def color_in_range_def
           split: if_splits js_value.splits)

lemma z_optional_footer_within:
  "z_optional (EmbedFooterSchema w) v = Some x \<Longrightarrow>
   string_within 2048 (opt_chain v (str ''text''))"
proof (cases "v = JUndefined")
  case True
  then show ?thesis by (simp add: string_within_def)
next
  case False
  assume "z_optional (EmbedFooterSchema w) v = Some x"
  with False obtain y where "EmbedFooterSchema w v = Some y"
    by (auto simp: z_optional_def)
  then obtain ps where v: "v = JObj ps"
    and t: "z_string 1 (Some 2048) (own_prop ps (str ''text'')) \<noteq> None"
    by (auto simp: EmbedFooterSchema_def bind_eq_Some_conv dest!: z_object_strict_keys)
  from t have "string_within 2048 (own_prop ps (str ''text''))"
    by (auto dest: z_string_within)
  with v show ?thesis by simp
qed

lemma z_optional_author_within:
  "z_optional (EmbedAuthorSchema w) v = Some x \<Longrightarrow>
   string_within 256 (opt_chain v (str ''name''))"
proof (cases "v = JUndefined")
  case True
  then show ?thesis by (simp add: string_within_def)
next
  case False
  assume "z_optional (EmbedAuthorSchema w) v = Some x"
  with False obtain y where "EmbedAuthorSchema w v = Some y"
    by (auto simp: z_optional_def)
  then obtain ps where v: "v = JObj ps"
    and t: "z_string 1 (Some 256) (own_prop ps (str ''name'')) \<noteq> None"
    by (auto simp: EmbedAuthorSchema_def bind_eq_Some_conv dest!: z_object_strict_keys)
  from t have "string_within 256 (own_prop ps (str ''name''))"
    by (auto dest: z_string_within)
  with v show ?thesis by simp
qed

lemma EmbedSchema_within_bounds:
  assumes "EmbedSchema w e = Some x"
  shows "embed_within_bounds e"
proof -
  from assms obtain ps where e: "e = JObj ps"
    and 1: "z_optional (z_string 0 (Some 256)) (own_prop ps (str ''title'')) \<noteq> None"
    and 2: "z_optional (z_string 0 (Some 4096)) (own_prop ps (str ''description'')) \<noteq> None"
    and 3: "z_optional (z_number_int 0 16777215) (own_prop ps (str ''color'')) \<noteq> None"
    and 4: "z_optional (EmbedFooterSchema w) (own_prop ps (str ''footer'')) \<noteq> None"
    and 5: "z_optional (EmbedAuthorSchema w) (own_prop ps (str ''author'')) \<noteq> None"
    and 6: "z_optional (z_array EmbedFieldSchema (Some MAX_FIELDS)) (own_prop ps (str ''fields''))
              \<noteq> None"
    by (auto simp: EmbedSchema_def bind_eq_Some_conv dest!: z_object_strict_keys)
  from 1 have "string_within 256 (own_prop ps (str ''title''))"
    by (auto dest: z_optional_string_within)
  moreover from 2 have "string_within 4096 (own_prop ps (str ''description''))"
    by (auto dest: z_optional_string_within)
  moreover from 3 have "color_in_range (own_prop ps (str ''color''))"
    by (auto dest: z_optional_color_in_range)
  moreover from 4 have "string_within 2048 (opt_chain (own_prop ps (str ''footer'')) (str ''text''))"
    by (auto dest: z_optional_footer_within)
  moreover from 5 have "string_within 256 (opt_chain (own_prop ps (str ''author'')) (str ''name''))"
    by (auto dest: z_optional_author_within)
  moreover from 6 have "array_within 25 (own_prop ps (str ''fields''))"
    by (auto dest: z_optional_array_within simp: MAX_FIELDS_def)
  ultimately show ?thesis by (simp add: embed_within_bounds_def e)
qed

lemma those_map_Some:
  "those (map f xs) = Some ys \<Longrightarrow> x \<in> set xs \<Longrightarrow> \<exists>y. f x = Some y"
  by (induction xs arbitrary: ys) (auto split: option.splits)

lemma z_optional_embeds_within:
  assumes "z_optional (z_array (EmbedSchema w) (Some MAX_EMBEDS)) v = Some x"
  shows "embeds_within_bounds v"
proof -
  from assms have a: "array_within 10 v"
    by (auto dest: z_optional_array_within simp: MAX_EMBEDS_def)
  have "list_all embed_within_bounds es" if "v = JArr es" for es
  proof -
    from assms that obtain ys where "those (map (EmbedSchema w) es) = Some ys"
      by (auto simp: z_optional_def z_array_def split: if_splits)
    then have "\<forall>e\<in>set es. \<exists>y. EmbedSchema w e = Some y"
      by (auto dest: those_map_Some)
    then show ?thesis
      by (auto simp: list_all_iff dest: EmbedSchema_within_bounds)
  qed
  with a show ?thesis
    by (auto simp: embeds_within_bounds_def split: js_value.splits)
qed

lemma SendMessageSchema_within_bounds:
  assumes "SendMessageSchema w args = Some p"
  shows "send_within_bounds args"
proof -
  from assms obtain ps where e: "args = JObj ps"
    and 1: "z_optional (z_string 1 (Some MAX_CONTENT_LENGTH)) (own_prop ps (str ''content'')) \<noteq> None"
    and 2: "z_optional (z_string 0 (Some 80)) (own_prop ps (str ''username'')) \<noteq> None"
    and 3: "z_optional (z_string 0 (Some 100)) (own_prop ps (str ''thread_name'')) \<noteq> None"
    and 4: "z_optional (z_array (EmbedSchema w) (Some MAX_EMBEDS)) (own_prop ps (str ''embeds''))
              \<noteq> None"
    by (auto simp: SendMessageSchema_def bind_eq_Some_conv dest!: z_object_strict_keys)
  from 1 have "string_within 2000 (own_prop ps (str ''content''))"
    by (auto dest: z_optional_string_within simp: MAX_CONTENT_LENGTH_def)
  moreover from 2 have "string_within 80 (own_prop ps (str ''username''))"
    by (auto dest: z_optional_string_within)
  moreover from 3 have "string_within 100 (own_prop ps (str ''thread_name''))"
    by (auto dest: z_optional_string_within)
  moreover from 4 have "embeds_within_bounds (own_prop ps (str ''embeds''))"
    by (auto dest: z_optional_embeds_within)
  ultimately show ?thesis by (simp add: send_within_bounds_def e)
qed

lemma EditMessageSchema_within_bounds:
  assumes "EditMessageSchema w args = Some p"
  shows "edit_within_bounds args"
proof -
  from assms obtain ps where e: "args = JObj ps"
    and 1: "z_optional (z_string 1 (Some MAX_CONTENT_LENGTH)) (own_prop ps (str ''content'')) \<noteq> None"
    and 4: "z_optional (z_array (EmbedSchema w) (Some MAX_EMBEDS)) (own_prop ps (str ''embeds''))
              \<noteq> None"
    by (auto simp: EditMessageSchema_def bind_eq_Some_conv dest!: z_object_strict_keys)
  from 1 have "string_within 2000 (own_prop ps (str ''content''))"
    by (auto dest: z_optional_string_within simp: MAX_CONTENT_LENGTH_def)
  moreover from 4 have "embeds_within_bounds (own_prop ps (str ''embeds''))"
    by (auto dest: z_optional_embeds_within)
  ultimately show ?thesis by (simp add: edit_within_bounds_def e)
qed

text \<open>
  C4. Arguments that the send schema or the edit schema accepts are within every bound:
  content at most 2000 code units, embed title 256, embed description 4096, footer
  text 2048, author name 256, username 80, thread name 100, at most 10 embeds, at most
  25 fields in an embed, and a color that is an integer from 0 to 16777215. Arguments
  outside a bound are rejected by the registered tool, which makes no request.
\<close>

theorem schema_enforces_bounds:
  "(SendMessageSchema w args = Some p \<longrightarrow> send_within_bounds args) \<and>
   (EditMessageSchema w args = Some ep \<longrightarrow> edit_within_bounds args) \<and>
   (\<not> send_within_bounds args \<longrightarrow> tool_discord_send_message w args = (InvalidParams, [])) \<and>
   (\<not> edit_within_bounds args \<longrightarrow> tool_discord_edit_message w args = (InvalidParams, []))"
proof -
  have 1: "SendMessageSchema w args = None" if "\<not> send_within_bounds args"
    using that SendMessageSchema_within_bounds [of w args] by (cases "SendMessageSchema w args") auto
  have 2: "EditMessageSchema w args = None" if "\<not> edit_within_bounds args"
    using that EditMessageSchema_within_bounds [of w args] by (cases "EditMessageSchema w args") auto
  show ?thesis
    using 1 2 SendMessageSchema_within_bounds [of w args p]
      EditMessageSchema_within_bounds [of w args ep]
    by (auto simp: tool_discord_send_message_def tool_discord_edit_message_def call_tool_def)
qed

lemma example_schema_accepts:
  "SendMessageSchema (example_env example_webhook fetch_failed) args_with_embed \<noteq> None"
  "EditMessageSchema (example_env example_webhook fetch_failed) edit_args_with_embed \<noteq> None"
  by code_simp+

lemma example_bounds:
  "send_within_bounds args_with_embed"
  "edit_within_bounds edit_args_with_embed"
  "\<not> send_within_bounds args_color_too_large"
  "\<not> edit_within_bounds edit_args_content_too_long"
  by code_simp+

theorem schema_enforces_bounds_witness:
  "SendMessageSchema (example_env example_webhook fetch_failed) args_with_embed \<noteq> None \<and>
   send_within_bounds args_with_embed \<and>
   EditMessageSchema (example_env example_webhook fetch_failed) edit_args_with_embed \<noteq> None \<and>
   edit_within_bounds edit_args_with_embed \<and>
   \<not> send_within_bounds args_color_too_large \<and>
   tool_discord_send_message (example_env example_webhook fetch_failed) args_color_too_large
     = (InvalidParams, []) \<and>
   \<not> edit_within_bounds edit_args_content_too_long \<and>
   tool_discord_edit_message (example_env example_webhook fetch_failed) edit_args_content_too_long
     = (InvalidParams, [])"
  using
    schema_enforces_bounds
      [of "example_env example_webhook fetch_failed" args_with_embed
          "the (SendMessageSchema (example_env example_webhook fetch_failed) args_with_embed)"]
    schema_enforces_bounds
      [of "example_env example_webhook fetch_failed" edit_args_with_embed _
          "the (EditMessageSchema (example_env example_webhook fetch_failed) edit_args_with_embed)"]
    schema_enforces_bounds
      [of "example_env example_webhook fetch_failed" args_color_too_large]
    schema_enforces_bounds
      [of "example_env example_webhook fetch_failed" edit_args_content_too_long]
    example_schema_accepts example_bounds
  by auto

lemma hex_sum:
  assumes "x < 65536"
  shows "(x div 4096 mod 16) * 4096 + (x div 256 mod 16) * 256 + (x div 16 mod 16) * 16 + x mod 16
           = (x::nat)"
proof -
  have a: "x div 256 = x div 16 div 16" by (simp add: div_mult2_eq)
  have b: "x div 4096 = x div 256 div 16" by (simp add: div_mult2_eq)
  from assms have "x div 4096 < 16" by simp
  then have c: "x div 4096 mod 16 = x div 4096" by simp
  have 1: "x = x div 16 * 16 + x mod 16" by simp
  have 2: "x div 16 = x div 256 * 16 + x div 16 mod 16" unfolding a by simp
  have 3: "x div 256 = x div 4096 * 16 + x div 256 mod 16" unfolding b by simp
  from 1 2 3 c show ?thesis by linarith
qed

lemma unat_code_unit_less: "unat (c :: code_unit) < 65536"
  using unsigned_less [of c, where 'a = nat] by simp

lemma unat_of_nat_small: "n < 65536 \<Longrightarrow> unat (of_nat n :: code_unit) = n"
  by (simp add: unat_of_nat)

lemma unat_hex_digit: "d < 16 \<Longrightarrow> unat (hex_digit d) = (if d < 10 then 48 + d else 87 + d)"
  unfolding hex_digit_def by (simp only: unat_of_nat_small split: if_splits) auto

lemma hex_val_hex_digit:
  assumes "d < 16"
  shows "hex_val (hex_digit d) = Some d"
proof -
  note u = unat_hex_digit [OF assms]
  show ?thesis
  proof (cases "d < 10")
    case True
    with u have "unat (hex_digit d) = 48 + d" by simp
    with True show ?thesis by (simp add: hex_val_def word_le_nat_alt)
  next
    case False
    with u have "unat (hex_digit d) = 87 + d" by simp
    with False assms show ?thesis by (simp add: hex_val_def word_le_nat_alt)
  qed
qed

lemma hex4_unicode_escape:
  "hex4 (hex_digit (unat c div 4096 mod 16)) (hex_digit (unat c div 256 mod 16))
        (hex_digit (unat c div 16 mod 16)) (hex_digit (unat c mod 16)) = Some c"
proof -
  have "(of_nat ((unat c div 4096 mod 16) * 4096 + (unat c div 256 mod 16) * 256
                + (unat c div 16 mod 16) * 16 + unat c mod 16) :: code_unit) = of_nat (unat c)"
    by (simp only: hex_sum [OF unat_code_unit_less])
  then have "(of_nat ((unat c div 4096 mod 16) * 4096 + (unat c div 256 mod 16) * 256
                + (unat c div 16 mod 16) * 16 + unat c mod 16) :: code_unit) = c"
    by (simp only: of_nat_unat unsigned_eq_0_iff) simp
  then show ?thesis
    unfolding hex4_def by (simp only: hex_val_hex_digit mod_less_divisor zero_less_numeral) simp
qed

lemma lex_string_unicode_escape:
  "lex_string (unicode_escape c @ rest) = consume c (lex_string rest)"
  by (simp add: unicode_escape_def hex4_unicode_escape)

lemma lex_string_plain:
  "c \<noteq> 0x22 \<Longrightarrow> c \<noteq> 0x5C \<Longrightarrow> \<not> c < 0x20 \<Longrightarrow> lex_string (c # r) = consume c (lex_string r)"
  by simp

lemma lex_string_escape:
  "e \<noteq> 0x75 \<Longrightarrow> unescape e = Some u \<Longrightarrow> lex_string (0x5C # e # r) = consume u (lex_string r)"
  by simp

lemma lex_string_quote: "lex_string (0x22 # r) = Some ([], r)"
  by simp

lemma quote_chars_cases:
  "quote_chars (c # cs) =
     (if c = 0x08 then [0x5C, 0x62] @ quote_chars cs
      else if c = 0x09 then [0x5C, 0x74] @ quote_chars cs
      else if c = 0x0A then [0x5C, 0x6E] @ quote_chars cs
      else if c = 0x0C then [0x5C, 0x66] @ quote_chars cs
      else if c = 0x0D then [0x5C, 0x72] @ quote_chars cs
      else if c = 0x22 then [0x5C, 0x22] @ quote_chars cs
      else if c = 0x5C then [0x5C, 0x5C] @ quote_chars cs
      else if c < 0x20 \<or> is_low_surrogate c
              \<or> (is_high_surrogate c \<and> (cs = [] \<or> \<not> is_low_surrogate (hd cs)))
        then unicode_escape c @ quote_chars cs
      else if is_high_surrogate c then c # hd cs # quote_chars (tl cs)
      else c # quote_chars cs)"
proof -
  have "\<not> (is_high_surrogate c \<and> is_low_surrogate c)"
    by (auto simp: is_high_surrogate_def is_low_surrogate_def word_le_nat_alt)
  then show ?thesis
    by (subst quote_chars.simps)
       (auto split: list.splits simp del: quote_chars.simps(2))
qed

lemma lex_string_quote_chars:
  "lex_string (quote_chars s @ 0x22 # rest) = Some (s, rest)"
proof (induction "length s" arbitrary: s rule: less_induct)
  case less
  show ?case
  proof (cases s)
    case Nil
    then show ?thesis by (simp only: quote_chars.simps append_Nil lex_string_quote)
  next
    case (Cons c cs)
    have IH: "lex_string (quote_chars t @ 0x22 # rest) = Some (t, rest)"
      if "length t < length s" for t
      using less that by blast
    have IHcs: "lex_string (quote_chars cs @ 0x22 # rest) = Some (cs, rest)"
      by (rule IH) (simp add: Cons)
    have esc: "lex_string (quote_chars (c # cs) @ 0x22 # rest) = Some (c # cs, rest)"
      if "quote_chars (c # cs) = [0x5C, e] @ quote_chars cs" and "e \<noteq> 0x75"
        and "unescape e = Some c" for e
      using that(1) IHcs
      by (simp only: append_Cons append_Nil lex_string_escape [OF that(2) that(3)] consume_def
                     option.case prod.case)
    have uni: "lex_string (quote_chars (c # cs) @ 0x22 # rest) = Some (c # cs, rest)"
      if "quote_chars (c # cs) = unicode_escape c @ quote_chars cs"
      using that IHcs by (simp only: append_assoc lex_string_unicode_escape consume_def
                                    option.case prod.case)
    have goal: "lex_string (quote_chars (c # cs) @ 0x22 # rest) = Some (c # cs, rest)"
    proof (cases "c = 0x08 \<or> c = 0x09 \<or> c = 0x0A \<or> c = 0x0C \<or> c = 0x0D \<or> c = 0x22 \<or> c = 0x5C")
      case True
      then consider "c = 0x08" | "c = 0x09" | "c = 0x0A" | "c = 0x0C" | "c = 0x0D"
        | "c = 0x22" | "c = 0x5C" by blast
      then show ?thesis
      proof cases
        case 1 then show ?thesis by (intro esc [of "0x62"]) (simp_all add: quote_chars_cases unescape_def)
      next
        case 2 then show ?thesis by (intro esc [of "0x74"]) (simp_all add: quote_chars_cases unescape_def)
      next
        case 3 then show ?thesis by (intro esc [of "0x6E"]) (simp_all add: quote_chars_cases unescape_def)
      next
        case 4 then show ?thesis by (intro esc [of "0x66"]) (simp_all add: quote_chars_cases unescape_def)
      next
        case 5 then show ?thesis by (intro esc [of "0x72"]) (simp_all add: quote_chars_cases unescape_def)
      next
        case 6 then show ?thesis by (intro esc [of "0x22"]) (simp_all add: quote_chars_cases unescape_def)
      next
        case 7 then show ?thesis by (intro esc [of "0x5C"]) (simp_all add: quote_chars_cases unescape_def)
      qed
    next
      case plain: False
      show ?thesis
      proof (cases "c < 0x20 \<or> is_low_surrogate c
              \<or> (is_high_surrogate c \<and> (cs = [] \<or> \<not> is_low_surrogate (hd cs)))")
        case True
        with plain have "quote_chars (c # cs) = unicode_escape c @ quote_chars cs"
          by (simp add: quote_chars_cases del: quote_chars.simps)
        then show ?thesis by (rule uni)
      next
        case nu: False
        then have c: "c \<noteq> 0x22" "c \<noteq> 0x5C" "\<not> c < 0x20"
          using plain by auto
        show ?thesis
        proof (cases "is_high_surrogate c")
          case True
          with nu obtain d ds where cs: "cs = d # ds" and ld: "is_low_surrogate d"
            by (cases cs) auto
          from ld have d: "d \<noteq> 0x22" "d \<noteq> 0x5C" "\<not> d < 0x20"
            by (auto simp: is_low_surrogate_def word_le_nat_alt word_less_nat_alt)
          have q: "quote_chars (c # cs) = c # d # quote_chars ds"
            using plain nu True cs by (simp add: quote_chars_cases del: quote_chars.simps)
          have "lex_string (quote_chars ds @ 0x22 # rest) = Some (ds, rest)"
            by (rule IH) (simp add: Cons cs)
          moreover from q cs have "quote_chars (c # d # ds) = c # d # quote_chars ds"
            by simp
          ultimately show ?thesis
            using c d
            by (simp add: cs lex_string_plain consume_def del: lex_string.simps quote_chars.simps)
        next
          case False
          with plain nu have q: "quote_chars (c # cs) = c # quote_chars cs"
            by (simp add: quote_chars_cases del: quote_chars.simps)
          show ?thesis
            using c IHcs
            by (simp add: q lex_string_plain consume_def del: lex_string.simps quote_chars.simps)
        qed
      qed
    qed
    with Cons show ?thesis by simp
  qed
qed

lemma is_digit_digit: "d < 10 \<Longrightarrow> is_digit (of_nat (48 + d))"
  by (simp only: is_digit_def word_le_nat_alt unat_of_nat_small) simp

lemma unat_digit: "d < 10 \<Longrightarrow> unat (of_nat (48 + d) :: code_unit) = 48 + d"
  by (simp only: unat_of_nat_small)

lemma dec_digits: "list_all is_digit (dec n)"
proof (induction n rule: dec.induct)
  case (1 n)
  show ?case
  proof (cases "n < 10")
    case True
    then show ?thesis by (subst dec.simps) (simp add: is_digit_digit del: of_nat_add)
  next
    case False
    have "n mod 10 < 10" by simp
    with False 1 show ?thesis
      by (subst dec.simps) (simp add: is_digit_digit del: of_nat_add)
  qed
qed

lemma dec_not_Nil: "dec n \<noteq> []"
  by (subst dec.simps) simp

lemma digits_val_snoc: "digits_val (ds @ [d]) = 10 * digits_val ds + (unat d - 48)"
  by (simp add: digits_val_def)

lemma digits_val_dec: "digits_val (dec n) = n"
proof (induction n rule: dec.induct)
  case (1 n)
  show ?case
  proof (cases "n < 10")
    case True
    then show ?thesis
      by (subst dec.simps) (simp add: digits_val_def unat_digit del: of_nat_add)
  next
    case False
    have "n mod 10 < 10" by simp
    then have "unat (of_nat (48 + n mod 10) :: code_unit) = 48 + n mod 10"
      by (rule unat_digit)
    with False 1 show ?thesis
      by (subst dec.simps) (simp add: digits_val_snoc del: of_nat_add)
  qed
qed

lemma hd_dec_nonzero: "0 < n \<Longrightarrow> hd (dec n) \<noteq> 0x30"
proof (induction n rule: dec.induct)
  case (1 n)
  show ?case
  proof (cases "n < 10")
    case True
    with "1.prems" have "unat (of_nat (48 + n) :: code_unit) \<noteq> unat (0x30 :: code_unit)"
      by (simp only: unat_digit) simp
    then have "(of_nat (48 + n) :: code_unit) \<noteq> 0x30" by auto
    with True show ?thesis by (subst dec.simps) (simp del: of_nat_add)
  next
    case False
    then have "0 < n div 10" by simp
    with False 1 have "hd (dec (n div 10)) \<noteq> 0x30" by simp
    with False show ?thesis
      by (subst dec.simps) (simp add: dec_not_Nil del: of_nat_add)
  qed
qed

lemma dec_zero: "dec 0 = [0x30]"
  by (subst dec.simps) simp

lemma dec_no_leading_zero: "\<not> (hd (dec n) = 0x30 \<and> 1 < length (dec n))"
  by (cases "n = 0") (auto simp: dec_zero dest: hd_dec_nonzero)

lemma hd_dec_digit: "is_digit (hd (dec n))"
  using dec_digits [of n] dec_not_Nil [of n] by (cases "dec n") auto

lemma takeWhile_dec: "\<not> is_digit c \<Longrightarrow> takeWhile is_digit (dec n @ c # rest) = dec n"
  using dec_digits [of n] by (simp add: takeWhile_append2 list_all_iff)

lemma dropWhile_dec: "\<not> is_digit c \<Longrightarrow> dropWhile is_digit (dec n @ c # rest) = c # rest"
  using dec_digits [of n] by (simp add: dropWhile_append2 list_all_iff)

lemma lex_number_dec:
  assumes c: "\<not> is_digit c" "c \<noteq> 0x2E" "c \<noteq> 0x65" "c \<noteq> 0x45"
  shows "lex_number (dec n @ c # rest) = Some (of_nat n, c # rest)"
proof -
  have h: "hd (dec n @ c # rest) = hd (dec n)" by (simp add: dec_not_Nil)
  have "is_digit (hd (dec n))" by (rule hd_dec_digit)
  then have nm: "hd (dec n) \<noteq> 0x2D" by (auto simp: is_digit_def)
  have i: "lex_int (dec n @ c # rest) = Some (n, c # rest)"
    using dec_no_leading_zero [of n]
    by (simp add: lex_int_def takeWhile_dec dropWhile_dec c dec_not_Nil digits_val_dec Let_def)
  have f: "lex_frac (c # rest) = Some (0, c # rest)" by (simp add: lex_frac_def c)
  have e: "lex_exp (c # rest) = Some (0, c # rest)" by (simp add: lex_exp_def c)
  show ?thesis
    by (simp add: lex_number_def Let_def h nm i f e)
qed

lemma tokenize_QuoteJSONString:
  "tokenize (QuoteJSONString s @ rest) = cons_token (TString s) (tokenize rest)"
  by (simp add: QuoteJSONString_def tokenize.simps is_ws_def lex_string_quote_chars)

lemma tokenize_punctuation:
  "tokenize (0x7B # r) = cons_token TLBrace (tokenize r)"
  "tokenize (0x7D # r) = cons_token TRBrace (tokenize r)"
  "tokenize (0x3A # r) = cons_token TColon (tokenize r)"
  "tokenize (0x2C # r) = cons_token TComma (tokenize r)"
  by (simp_all add: tokenize.simps is_ws_def)

lemma digit_starts_number:
  assumes "is_digit d"
  shows "tokenize (d # r) =
     (case lex_number (d # r) of
        None \<Rightarrow> None
      | Some (x, rest) \<Rightarrow> cons_token (TNumber x) (tokenize rest))"
proof -
  from assms have "\<not> is_ws d" "d \<noteq> 0x7B" "d \<noteq> 0x7D" "d \<noteq> 0x5B" "d \<noteq> 0x5D"
    "d \<noteq> 0x3A" "d \<noteq> 0x2C" "d \<noteq> 0x22"
    by (auto simp: is_digit_def is_ws_def)
  with assms show ?thesis by (simp add: tokenize.simps)
qed

lemma tokenize_dec_comma:
  "tokenize (dec n @ 0x2C # rest) = cons_token (TNumber (of_nat n)) (tokenize (0x2C # rest))"
proof -
  obtain d ds where d: "dec n = d # ds" using dec_not_Nil [of n] by (cases "dec n") auto
  with hd_dec_digit [of n] have "is_digit d" by simp
  then have "tokenize (d # ds @ 0x2C # rest) =
     (case lex_number (d # ds @ 0x2C # rest) of
        None \<Rightarrow> None
      | Some (x, rest) \<Rightarrow> cons_token (TNumber x) (tokenize rest))"
    by (rule digit_starts_number)
  moreover have "lex_number (dec n @ 0x2C # rest) = Some (of_nat n, 0x2C # rest)"
    by (rule lex_number_dec) (simp_all add: is_digit_def)
  ultimately show ?thesis by (simp add: d)
qed

lemma Number_toString_small:
  assumes "k < 65536"
  shows "Number_toString other (of_nat k) = dec k"
proof -
  from assms have "k < 10 ^ 21" by simp
  then have "(of_nat k :: rat) < of_nat (10 ^ 21)" by (simp only: of_nat_less_iff)
  then have "(of_nat k :: rat) < 10 ^ 21" by simp
  then show ?thesis by (simp add: Number_toString_def)
qed

lemma Number_toString_unsigned:
  "Number_toString other (unsigned (st :: code_unit)) = dec (unat st)"
  using Number_toString_small [OF unat_code_unit_less, of other st] by simp

text \<open>The message of the \<open>Error\<close> that \<open>makeRequest\<close> throws on a failure status.\<close>

lemma failure_message:
  "JSON_stringify other
     (JObj [(str ''status'', JNum (unsigned (st :: code_unit))),
            (str ''statusText'', JStr stText), (str ''body'', JStr b)]) =
   Some (0x7B # QuoteJSONString (str ''status'') @ 0x3A # dec (unat st) @
         0x2C # QuoteJSONString (str ''statusText'') @ 0x3A # QuoteJSONString stText @
         0x2C # QuoteJSONString (str ''body'') @ 0x3A # QuoteJSONString b @ [0x7D])"
  by (simp add: Number_toString_unsigned QuoteJSONString_def)

lemma failure_message_tokens:
  "tokenize (0x7B # QuoteJSONString (str ''status'') @ 0x3A # dec (unat st) @
         0x2C # QuoteJSONString (str ''statusText'') @ 0x3A # QuoteJSONString stText @
         0x2C # QuoteJSONString (str ''body'') @ 0x3A # QuoteJSONString b @ [0x7D]) =
   Some [TLBrace, TString (str ''status''), TColon, TNumber (unsigned st), TComma,
         TString (str ''statusText''), TColon, TString stText, TComma,
         TString (str ''body''), TColon, TString b, TRBrace]"
  by (simp only: tokenize_punctuation tokenize_QuoteJSONString tokenize_dec_comma
        tokenize.simps(1) append_Cons append_Nil cons_token_def option.map of_nat_unat)

lemma failure_message_parses:
  "JSON_parse (0x7B # QuoteJSONString (str ''status'') @ 0x3A # dec (unat st) @
         0x2C # QuoteJSONString (str ''statusText'') @ 0x3A # QuoteJSONString stText @
         0x2C # QuoteJSONString (str ''body'') @ 0x3A # QuoteJSONString b @ [0x7D]) =
   Some (JObj [(str ''status'', JNum (unsigned st)), (str ''statusText'', JStr stText),
               (str ''body'', JStr b)])"
  by (simp add: JSON_parse_def failure_message_tokens)

lemma str_brace: "str ''{'' = [0x7B]"
  by (simp add: str_def)











lemma begin_value_object_root:
  "st \<noteq> [] \<Longrightarrow> is_FObj (last st) \<Longrightarrow> begin_value st t = Some s' \<Longrightarrow> object_root s'"
  by (cases t) auto

lemma pstep_object_root:
  "object_root s \<Longrightarrow> pstep s t = Some s' \<Longrightarrow> object_root s'"
proof (induction s t rule: pstep.induct)
  case (1 st t)
  then show ?case by (auto dest: begin_value_object_root)
next
  case (2 st t)
  show ?case
  proof (cases "t = TRBracket")
    case True
    with 2 show ?thesis by auto
  next
    case False
    with 2 have "begin_value (FArr [] # st) t = Some s'" and "FArr [] # st \<noteq> []"
      and "is_FObj (last (FArr [] # st))" by auto
    then show ?thesis by (rule begin_value_object_root [rotated 2])
  qed
next
  case (3 st t)
  then show ?case by (cases t) auto
next
  case (4 ms st t)
  then show ?case by (cases t) auto
next
  case (5 ms k st t)
  then show ?case by (auto split: if_splits)
next
  case (6 v t)
  then show ?case by simp
next
  case (7 v es st t)
  then show ?case by (auto split: if_splits)
next
  case (8 v ms k st t)
  then show ?case by (auto split: if_splits)
qed

lemma prun_object_root:
  "object_root s \<Longrightarrow> prun s ts = Some s' \<Longrightarrow> object_root s'"
  by (induction ts arbitrary: s) (auto split: option.splits dest: pstep_object_root)

lemma pfinish_object_root:
  "object_root s \<Longrightarrow> pfinish s = Some v \<Longrightarrow> is_JObj v"
  by (cases s rule: pfinish.cases) auto

lemma JSON_parse_brace_object:
  assumes "JSON_parse (0x7B # cs) = Some v"
  shows "\<exists>ps. v = JObj ps"
proof -
  from assms obtain ts s where t: "tokenize cs = Some ts"
    and r: "prun (PValue []) (TLBrace # ts) = Some s" and f: "pfinish s = Some v"
    by (auto simp: JSON_parse_def tokenize_punctuation cons_token_def split: option.splits)
  from r have "prun (PObjStart []) ts = Some s" by simp
  then have "object_root s" by (rule prun_object_root [rotated]) simp
  with f have "is_JObj v" by (rule pfinish_object_root [rotated])
  then show ?thesis by (cases v) auto
qed

lemma startsWith_brace: "startsWith m (str ''{'') \<longleftrightarrow> (\<exists>cs. m = 0x7B # cs)"
  by (cases m) (auto simp: startsWith_def str_brace)

lemma convertError_webhook_iff:
  "isWebhookError (convertError w e) \<longleftrightarrow>
     (\<exists>m. e = ErrorObj m \<and> startsWith m (str ''{'') \<and> JSON_parse m \<noteq> None)"
proof (cases e)
  case (ErrorObj m)
  show ?thesis
  proof (cases "startsWith m (str ''{'')")
    case True
    then obtain cs where m: "m = 0x7B # cs" by (auto simp: startsWith_brace)
    show ?thesis
    proof (cases "JSON_parse m")
      case None
      with ErrorObj True show ?thesis by (simp add: convertError_def)
    next
      case (Some v)
      with m obtain ps where "v = JObj ps" by (auto dest: JSON_parse_brace_object)
      with ErrorObj True Some show ?thesis by (simp add: convertError_def)
    qed
  next
    case False
    with ErrorObj show ?thesis by (simp add: convertError_def)
  qed
next
  case (NonError v)
  then show ?thesis by (simp add: convertError_def)
qed

lemma JSON_parse_empty_object: "JSON_parse (str ''{}'') = Some (JObj [])"
  by code_simp

lemma convertError_empty_object:
  "convertError w (ErrorObj (str ''{}'')) = webhook_error JUndefined JUndefined JUndefined"
  by (simp add: convertError_def JSON_parse_empty_object startsWith_def own_prop_def)

lemma makeRequest_failure_shape:
  assumes "fetch w \<lparr>req_url = url, req_method = m,
                    req_headers = [(str ''Content-Type'', str ''application/json'')],
                    req_body = bd\<rparr> = Inr r"
    and "\<not> response_ok r" and "body r = b"
  shows "\<exists>msg. fst (makeRequest w url m bd) = Inl (ErrorObj msg) \<and>
               startsWith msg (str ''{'') \<and> JSON_parse msg \<noteq> None"
  using assms
  by (simp add: makeRequest_def Let_def Number_toString_unsigned failure_message_parses
        startsWith_brace)

text \<open>
  C10. \<open>convertError\<close> gives a \<open>webhook_error\<close> exactly for an \<open>Error\<close> whose
  message starts with \<open>{\<close> and parses as JSON. The error that \<open>makeRequest\<close>
  throws on a failure status has such a message. So has an \<open>Error\<close> with the message
  \<open>{}\<close>, whatever raised it: it becomes a \<open>webhook_error\<close> whose three fields are
  \<open>undefined\<close>.
\<close>

theorem webhook_error_iff_json_object_message:
  "(isWebhookError (convertError w e) \<longleftrightarrow>
      (\<exists>m. e = ErrorObj m \<and> startsWith m (str ''{'') \<and> JSON_parse m \<noteq> None)) \<and>
   (fetch w \<lparr>req_url = url, req_method = mth,
             req_headers = [(str ''Content-Type'', str ''application/json'')],
             req_body = bd\<rparr> = Inr r \<and> \<not> response_ok r \<longrightarrow>
      (\<exists>msg. fst (makeRequest w url mth bd) = Inl (ErrorObj msg) \<and>
             startsWith msg (str ''{'') \<and> JSON_parse msg \<noteq> None)) \<and>
   convertError w (ErrorObj (str ''{}'')) = webhook_error JUndefined JUndefined JUndefined"
  using convertError_webhook_iff [of w e] makeRequest_failure_shape [of w url mth bd r "body r"]
    convertError_empty_object [of w]
  by blast

theorem webhook_error_iff_json_object_message_witness:
  "isWebhookError (convertError (example_env example_webhook fetch_unknown_message)
                     (ErrorObj (str ''{}''))) \<and>
   fetch (example_env example_webhook fetch_unknown_message) request_edit =
     Inr \<lparr>status = 404, statusText = str ''Not Found'', body = str ''Unknown Message''\<rparr> \<and>
   \<not> response_ok \<lparr>status = 404, statusText = str ''Not Found'',
                    body = str ''Unknown Message''\<rparr> \<and>
   (\<exists>msg. fst (makeRequest (example_env example_webhook fetch_unknown_message)
                 (req_url request_edit) PATCH (req_body request_edit)) = Inl (ErrorObj msg) \<and>
          startsWith msg (str ''{'') \<and> JSON_parse msg \<noteq> None)"
proof -
  have 2: "fetch (example_env example_webhook fetch_unknown_message) request_edit =
     Inr \<lparr>status = 404, statusText = str ''Not Found'', body = str ''Unknown Message''\<rparr>"
    by (simp add: example_env_def fetch_unknown_message_def)
  have 3: "\<not> response_ok \<lparr>status = 404, statusText = str ''Not Found'',
                    body = str ''Unknown Message''\<rparr>"
    by (simp add: response_ok_def)
  have 4: "request_edit = \<lparr>req_url = req_url request_edit, req_method = PATCH,
             req_headers = [(str ''Content-Type'', str ''application/json'')],
             req_body = req_body request_edit\<rparr>"
    by (simp add: request_edit_def)
  have 5: "startsWith (str ''{}'') (str ''{'')" by (simp add: startsWith_def)
  show ?thesis
    using webhook_error_iff_json_object_message
      [of "example_env example_webhook fetch_unknown_message" "ErrorObj (str ''{}'')"
          "req_url request_edit" PATCH "req_body request_edit"
          "\<lparr>status = 404, statusText = str ''Not Found'', body = str ''Unknown Message''\<rparr>"]
      2 3 4 5 JSON_parse_empty_object
    by auto
qed











end

